theory Spec2Isabelle
  imports Complex_Main
begin

section \<open>Python values and exceptions\<close>

text \<open>
  The trainer is Python. Python \<open>int\<close> is modelled by \<open>int\<close> (counters that only
  count up from 0 by \<open>nat\<close>), Python \<open>float\<close> by \<open>real\<close>, \<open>None\<close> by \<open>option\<close>, and
  an exception that leaves a function by \<open>Inl\<close> of the sum type \<open>error + 'a\<close>.
\<close>

datatype error =
    NotImplementedError string
  | AttributeError
  | TypeError
  | KeyError
  | IndexError
  | ZeroDivisionError
  | UnboundLocalError
  | ValueError

text \<open>Sequencing of fallible steps: the first exception ends the computation.\<close>

definition bind_err :: "error + 'a \<Rightarrow> ('a \<Rightarrow> error + 'b) \<Rightarrow> error + 'b" where
  "bind_err m f = (case m of Inl e \<Rightarrow> Inl e | Inr x \<Rightarrow> f x)"

text \<open>\<open>str(n)\<close> for an integer, as an f-string renders it.\<close>

definition digit_char :: "nat \<Rightarrow> char" where
  "digit_char d = char_of (48 + d)"

fun str_nat :: "nat \<Rightarrow> string" where
  "str_nat n = (if n < 10 then [digit_char n] else str_nat (n div 10) @ [digit_char (n mod 10)])"

definition str_int :: "int \<Rightarrow> string" where
  "str_int i = (if i < 0 then CHR ''-'' # str_nat (nat (- i)) else str_nat (nat i))"

section \<open>config.py: TrainingConfig\<close>

datatype concept_mode = Face | Style | Object

datatype sd_model_version = Sdxl | Sd15 | Sd3

datatype caption_model = Gpt4v | Blip

fun concept_mode_str :: "concept_mode \<Rightarrow> string" where
  "concept_mode_str Face = ''face''"
| "concept_mode_str Style = ''style''"
| "concept_mode_str Object = ''object''"

fun sd_model_version_str :: "sd_model_version \<Rightarrow> string" where
  "sd_model_version_str Sdxl = ''sdxl''"
| "sd_model_version_str Sd15 = ''sd15''"
| "sd_model_version_str Sd3 = ''sd3''"

fun caption_model_str :: "caption_model \<Rightarrow> string" where
  "caption_model_str Gpt4v = ''gpt4-v''"
| "caption_model_str Blip = ''blip''"

text \<open>
  The fields of \<open>TrainingConfig\<close> that \<open>__init__\<close> reads or writes, after pydantic has
  validated them (\<open>'m\<close> is the type of an entry of the \<open>pretrained_models\<close> table, which
  lives in \<open>trainer.models\<close>). The remaining fields are plain data that \<open>__init__\<close>
  passes through untouched.
\<close>

record 'm training_config =
  sd_model_version :: sd_model_version
  concept_mode :: concept_mode
  caption_model :: caption_model
  pretrained_model :: "'m option"
  seed :: "int option"
  resolution :: int
  max_train_steps :: int
  unet_lr_warmup_steps :: "int option"
  prodigy_d_coef :: real
  lora_weight_decay :: real
  l1_penalty :: real
  use_dora :: bool
  left_right_flip_augmentation :: bool
  mask_target_prompts :: "string option"
  name :: "string option"
  output_dir :: string
  n_tokens :: int
  inserting_list_tokens :: "string list"
  token_dict :: "(string \<times> string) list"
  device :: string
  start_time :: real
  text_encoder_lora_weight_decay :: real

text \<open>
  What \<open>__init__\<close> takes from its environment: the table \<open>pretrained_models\<close>, the
  clock (\<open>datetime.now().strftime(...)\<close> and \<open>time.time()\<close>), how Python prints a float
  inside an f-string, and what \<open>torch.cuda\<close> reports to \<open>pick_best_gpu_id\<close>: the free
  memory of each visible GPU, or \<open>None\<close> when the query raises.
\<close>

record 'm init_env =
  pretrained_models :: "sd_model_version \<Rightarrow> 'm"
  timestamp_short :: string
  time_now :: real
  str_float :: "real \<Rightarrow> string"
  gpu_free_memory :: "nat list option"

text \<open>\<open>np.argmax\<close>: the first index of the largest entry.\<close>

fun argmax_from :: "nat \<Rightarrow> nat \<Rightarrow> nat \<Rightarrow> nat list \<Rightarrow> nat" where
  "argmax_from best bestv i [] = best"
| "argmax_from best bestv i (x # xs) =
     (if bestv < x then argmax_from i x (Suc i) xs else argmax_from best bestv (Suc i) xs)"

definition argmax :: "nat list \<Rightarrow> nat" where
  "argmax xs = (case xs of [] \<Rightarrow> 0 | x # rest \<Rightarrow> argmax_from 0 x 1 rest)"

text \<open>
  utils.py, \<open>pick_best_gpu_id\<close>: \<open>None\<close> with no visible GPU, the GPU with the most
  free memory otherwise, and 0 when anything raises.
\<close>

definition pick_best_gpu_id :: "nat list option \<Rightarrow> nat option" where
  "pick_best_gpu_id mem =
     (case mem of
        None \<Rightarrow> Some 0
      | Some gpu_mem \<Rightarrow> if length gpu_mem = 0 then None else Some (argmax gpu_mem))"

definition str_gpu_id :: "nat option \<Rightarrow> string" where
  "str_gpu_id g = (case g of None \<Rightarrow> ''None'' | Some i \<Rightarrow> str_nat i)"

text \<open>\<open>os.path.basename\<close>: what follows the last slash.\<close>

definition basename :: "string \<Rightarrow> string" where
  "basename p = rev (takeWhile (\<lambda>c. c \<noteq> CHR ''/'') (rev p))"

definition lora_str :: "bool \<Rightarrow> string" where
  "lora_str dora = (if dora then ''dora'' else ''lora'')"

text \<open>
  \<open>TrainingConfig.__init__\<close>, statement by statement, each step a record update of the
  configuration built so far (\<open>os.makedirs\<close> and the prints touch nothing of the
  configuration and are left out; \<open>int(time.time())\<close> is the floor of a clock that is
  not negative).
\<close>

definition set_pretrained_model :: "'m init_env \<Rightarrow> 'm training_config \<Rightarrow> 'm training_config" where
  "set_pretrained_model env c = c\<lparr>pretrained_model := Some (pretrained_models env (sd_model_version c))\<rparr>"

definition set_name :: "'m init_env \<Rightarrow> 'm training_config \<Rightarrow> 'm training_config" where
  "set_name env c =
     (if name c = None \<or> name c = Some []
      then c\<lparr>name := Some (basename (output_dir c) @ ''_'' @ concept_mode_str (concept_mode c)
                  @ ''_'' @ lora_str (use_dora c) @ ''_'' @ sd_model_version_str (sd_model_version c)
                  @ ''_'' @ timestamp_short env)\<rparr>
      else c)"

definition set_output_dir :: "'m init_env \<Rightarrow> 'm training_config \<Rightarrow> 'm training_config" where
  "set_output_dir env c =
     c\<lparr>output_dir := output_dir c @ ''--'' @ timestamp_short env @ ''-''
          @ sd_model_version_str (sd_model_version c) @ ''_'' @ concept_mode_str (concept_mode c)
          @ ''_'' @ lora_str (use_dora c) @ ''_'' @ str_int (resolution c)
          @ ''_'' @ str_float env (prodigy_d_coef c) @ ''_'' @ caption_model_str (caption_model c)
          @ ''_'' @ str_int (max_train_steps c)\<rparr>"

definition set_seed :: "'m init_env \<Rightarrow> 'm training_config \<Rightarrow> 'm training_config" where
  "set_seed env c = (if seed c = None then c\<lparr>seed := Some \<lfloor>time_now env\<rfloor>\<rparr> else c)"

definition set_unet_lr_warmup_steps :: "'m training_config \<Rightarrow> 'm training_config" where
  "set_unet_lr_warmup_steps c =
     (if unet_lr_warmup_steps c = None then c\<lparr>unet_lr_warmup_steps := Some (max_train_steps c)\<rparr> else c)"

definition face_mode :: "'m training_config \<Rightarrow> 'm training_config" where
  "face_mode c =
     (if concept_mode c = Face
      then c\<lparr>left_right_flip_augmentation := False, mask_target_prompts := Some ''face''\<rparr>
      else c)"

definition dora_mode :: "'m training_config \<Rightarrow> 'm training_config" where
  "dora_mode c =
     (if use_dora c
      then c\<lparr>l1_penalty := 0, lora_weight_decay := 0, text_encoder_lora_weight_decay := 0\<rparr>
      else c)"

definition build_tokens :: "'m training_config \<Rightarrow> 'm training_config" where
  "build_tokens c =
     (let toks = map (\<lambda>i. ''<s'' @ str_nat i @ ''>'') [0 ..< nat (n_tokens c)]
      in c\<lparr>inserting_list_tokens := toks, token_dict := [(''TOK'', concat toks)]\<rparr>)"

definition set_device :: "'m init_env \<Rightarrow> 'm training_config \<Rightarrow> 'm training_config" where
  "set_device env c =
     c\<lparr>device := ''cuda:'' @ str_gpu_id (pick_best_gpu_id (gpu_free_memory env)),
       start_time := time_now env\<rparr>"

definition training_config_init :: "'m init_env \<Rightarrow> 'm training_config \<Rightarrow> 'm training_config" where
  "training_config_init env data =
     set_device env (build_tokens (dora_mode (face_mode (set_unet_lr_warmup_steps
       (set_seed env (set_output_dir env (set_name env (set_pretrained_model env data))))))))"

section \<open>Optimizer objects\<close>

text \<open>
  What this code reads of a \<open>torch\<close> parameter: its element count and whether it is
  trained.
\<close>

record param =
  numel :: nat
  requires_grad :: bool

text \<open>
  A parameter group of an optimizer is a Python dict. The keys this code reads are
  fields; \<open>None\<close> says that the key is absent, so that reading it raises \<open>KeyError\<close>.
  An AdamW group has no \<open>d\<close>, \<open>k\<close> or \<open>use_bias_correction\<close>; a Prodigy group has all.
\<close>

record param_group =
  pg_params :: "param list"
  pg_lr :: "real option"
  pg_weight_decay :: "real option"
  pg_betas :: "(real \<times> real) option"
  pg_d :: "real option"
  pg_k :: "int option"
  pg_use_bias_correction :: "bool option"

text \<open>The two algorithms; Prodigy carries its \<open>d_coef\<close> and \<open>growth_rate\<close>.\<close>

datatype algorithm = AdamW | Prodigy real "real option"

text \<open>
  An optimizer object: \<open>param_groups\<close> is \<open>None\<close> once the pivot of the training loop
  has assigned \<open>None\<close> to it.
\<close>

record optimizer =
  algorithm :: algorithm
  param_groups :: "param_group list option"

text \<open>
  The dicts the source passes to a constructor: \<open>params\<close>, and optionally \<open>lr\<close> and
  \<open>weight_decay\<close>, which override the constructor's defaults for that group.
\<close>

record group_spec =
  gs_params :: "param list"
  gs_lr :: "real option"
  gs_weight_decay :: "real option"

definition or_default :: "'a option \<Rightarrow> 'a \<Rightarrow> 'a" where
  "or_default v dflt = (case v of None \<Rightarrow> dflt | Some x \<Rightarrow> x)"

text \<open>
  \<open>torch.optim.AdamW(groups, lr=..., weight_decay=...)\<close> and
  \<open>prodigyopt.Prodigy(groups, d_coef=..., lr=..., weight_decay=..., betas=...,
  use_bias_correction=..., growth_rate=...)\<close>: every group gets the constructor's
  settings where it has none of its own. AdamW's \<open>betas\<close> default to (0.9, 0.999); a new
  Prodigy group starts with \<open>d = d0 = 1e-6\<close> and \<open>k = 0\<close>.
\<close>

definition torch_AdamW :: "group_spec list \<Rightarrow> real \<Rightarrow> real \<Rightarrow> optimizer" where
  "torch_AdamW groups lr wd =
     \<lparr>algorithm = AdamW,
      param_groups = Some (map (\<lambda>g.
        \<lparr>pg_params = gs_params g,
         pg_lr = Some (or_default (gs_lr g) lr),
         pg_weight_decay = Some (or_default (gs_weight_decay g) wd),
         pg_betas = Some (9 / 10, 999 / 1000),
         pg_d = None, pg_k = None, pg_use_bias_correction = None\<rparr>) groups)\<rparr>"

definition prodigyopt_Prodigy ::
  "group_spec list \<Rightarrow> real \<Rightarrow> real \<Rightarrow> real \<Rightarrow> real \<times> real \<Rightarrow> bool \<Rightarrow> real option \<Rightarrow> optimizer" where
  "prodigyopt_Prodigy groups d_coef lr wd betas ubc growth_rate =
     \<lparr>algorithm = Prodigy d_coef growth_rate,
      param_groups = Some (map (\<lambda>g.
        \<lparr>pg_params = gs_params g,
         pg_lr = Some (or_default (gs_lr g) lr),
         pg_weight_decay = Some (or_default (gs_weight_decay g) wd),
         pg_betas = Some betas,
         pg_d = Some (1 / 1000000), pg_k = Some 0, pg_use_bias_correction = Some ubc\<rparr>) groups)\<rparr>"

section \<open>optimizer.py\<close>

text \<open>\<open>get_unet_optimizer\<close>: AdamW at \<open>lr = 1e-4\<close> (weight decay at torch's default 0.01), or Prodigy.\<close>

definition get_unet_optimizer ::
  "real \<Rightarrow> real \<Rightarrow> bool \<Rightarrow> group_spec list \<Rightarrow> string \<Rightarrow> error + optimizer" where
  "get_unet_optimizer prodigy_d_coef' lora_weight_decay' use_dora' unet_trainable_params optimizer_name =
     (if optimizer_name = ''adamw'' then
        Inr (torch_AdamW unet_trainable_params (1 / 10000) (1 / 100))
      else if optimizer_name = ''prodigy'' then
        Inr (prodigyopt_Prodigy unet_trainable_params prodigy_d_coef' 1
               (if \<not> use_dora' then lora_weight_decay' else 0) (9 / 10, 99 / 100) True (Some (104 / 100)))
      else Inl (NotImplementedError (''Invalid optimizer_name for unet: '' @ optimizer_name)))"

text \<open>\<open>sub in s\<close> for strings.\<close>

fun contains :: "string \<Rightarrow> string \<Rightarrow> bool" where
  "contains sub [] = (sub = [])"
| "contains sub (c # cs) = (take (length sub) (c # cs) = sub \<or> contains sub cs)"

text \<open>
  A text encoder, as far as \<open>get_textual_inversion_optimizer\<close> looks at it: its named
  parameters. The function marks every parameter whose name contains
  \<open>token_embedding\<close> as trained and collects it.
\<close>

type_synonym text_encoder = "(string \<times> param) list"

definition token_embedding_params :: "text_encoder option list \<Rightarrow> param list" where
  "token_embedding_params text_encoders =
     concat (map (\<lambda>te. case te of
         None \<Rightarrow> []
       | Some named_parameters \<Rightarrow>
           map (\<lambda>(n, p). p\<lparr>requires_grad := True\<rparr>)
             (filter (\<lambda>(n, p). contains ''token_embedding'' n) named_parameters)) text_encoders)"

definition get_textual_inversion_optimizer ::
  "text_encoder option list \<Rightarrow> real \<Rightarrow> real \<Rightarrow> string \<Rightarrow> error + (optimizer \<times> param list)" where
  "get_textual_inversion_optimizer text_encoders textual_inversion_lr textual_inversion_weight_decay optimizer_name =
     (let text_encoder_parameters = token_embedding_params text_encoders;
          params_to_optimize_ti =
            [\<lparr>gs_params = text_encoder_parameters,
              gs_lr = Some (if optimizer_name \<noteq> ''prodigy'' then textual_inversion_lr else 1),
              gs_weight_decay = Some textual_inversion_weight_decay\<rparr>]
      in if optimizer_name = ''prodigy'' then
           Inr (prodigyopt_Prodigy params_to_optimize_ti 1 1 textual_inversion_weight_decay
                  (9 / 10, 99 / 100) True None, text_encoder_parameters)
         else if optimizer_name = ''adamw'' then
           Inr (torch_AdamW params_to_optimize_ti (1 / 1000) textual_inversion_weight_decay,
                text_encoder_parameters)
         else Inl (NotImplementedError (''Invalid optimizer_name: '' @ [CHR 0x27] @ optimizer_name @ [CHR 0x27])))"

text \<open>
  \<open>get_optimizer_and_peft_models_text_encoder_lora\<close>, from the adapter parameters that
  \<open>peft\<close> returns for the text encoders: AdamW only.
\<close>

definition get_optimizer_text_encoder_lora ::
  "param list \<Rightarrow> bool \<Rightarrow> string \<Rightarrow> real \<Rightarrow> real \<Rightarrow> error + optimizer" where
  "get_optimizer_text_encoder_lora text_encoder_lora_parameters use_dora' optimizer_name lora_lr weight_decay =
     (if optimizer_name = ''adamw'' then
        Inr (torch_AdamW [\<lparr>gs_params = text_encoder_lora_parameters, gs_lr = None, gs_weight_decay = None\<rparr>]
               lora_lr (if \<not> use_dora' then weight_decay else 0))
      else Inl (NotImplementedError
        (''Text encoder LoRA finetuning is not yet implemented for optimizer: '' @ optimizer_name)))"

section \<open>utils.py: get_avg_lr\<close>

text \<open>
  \<open>b ** n\<close> for a float \<open>b\<close> and an int \<open>n\<close>: a zero base with a negative exponent
  raises \<open>ZeroDivisionError\<close> (\<open>None\<close> here).
\<close>

definition py_pow :: "real \<Rightarrow> int \<Rightarrow> real option" where
  "py_pow b n =
     (if 0 \<le> n then Some (b ^ nat n)
      else if b = 0 then None
      else Some (1 / b ^ nat (- n)))"

text \<open>
  The body of the loop over the parameter groups, inside the \<open>try\<close>: \<open>None\<close> when a
  statement raises (a missing key, a division by zero). \<open>x ** 0.5\<close> of a negative float
  is a complex number in Python, so the rate is computed in \<open>complex\<close>, with \<open>csqrt\<close>
  the principal root.
\<close>

definition bias_correction :: "param_group \<Rightarrow> complex option" where
  "bias_correction grp =
     (case pg_use_bias_correction grp of
        None \<Rightarrow> None
      | Some False \<Rightarrow> Some 1
      | Some True \<Rightarrow>
          (case pg_betas grp of
             None \<Rightarrow> None
           | Some (beta1, beta2) \<Rightarrow>
               (case pg_k grp of
                  None \<Rightarrow> None
                | Some k \<Rightarrow>
                    (case (py_pow beta2 (k + 1), py_pow beta1 (k + 1)) of
                       (Some p2, Some p1) \<Rightarrow>
                         if 1 - p1 = 0 then None
                         else Some (csqrt (complex_of_real (1 - p2)) / complex_of_real (1 - p1))
                     | _ \<Rightarrow> None))))"

definition num_params :: "param_group \<Rightarrow> nat" where
  "num_params grp = sum_list (map numel (filter requires_grad (pg_params grp)))"

fun avg_lr_loop :: "param_group list \<Rightarrow> complex \<times> nat \<Rightarrow> (complex \<times> nat) option" where
  "avg_lr_loop [] acc = Some acc"
| "avg_lr_loop (grp # grps) (total_lr, total_params) =
     (case (pg_d grp, pg_lr grp, bias_correction grp) of
        (Some d, Some lr, Some bc) \<Rightarrow>
          (let effective_lr = complex_of_real d * complex_of_real lr * bc
           in avg_lr_loop grps
                (total_lr + effective_lr * of_nat (num_params grp), total_params + num_params grp))
      | _ \<Rightarrow> None)"

text \<open>The \<open>try\<close> block: \<open>None\<close> when it raises, which a \<open>None\<close> handle does at once.\<close>

definition get_avg_lr_try :: "optimizer option \<Rightarrow> complex option" where
  "get_avg_lr_try opt =
     (case opt of
        None \<Rightarrow> None
      | Some ob \<Rightarrow>
          (case param_groups ob of
             None \<Rightarrow> None
           | Some groups \<Rightarrow>
               (case avg_lr_loop groups (0, 0) of
                  None \<Rightarrow> None
                | Some (total_lr, total_params) \<Rightarrow>
                    if total_params = 0 then Some 0 else Some (total_lr / of_nat total_params))))"

text \<open>
  \<open>optimizer.param_groups[0]['lr']\<close>, with the exception each step of it raises: the
  attribute of \<open>None\<close>, the index into \<open>None\<close>, the index into an empty list, the
  missing key.
\<close>

definition first_group_lr :: "optimizer option \<Rightarrow> error + real" where
  "first_group_lr opt =
     (case opt of
        None \<Rightarrow> Inl AttributeError
      | Some ob \<Rightarrow>
          (case param_groups ob of
             None \<Rightarrow> Inl TypeError
           | Some [] \<Rightarrow> Inl IndexError
           | Some (g # _) \<Rightarrow> (case pg_lr g of None \<Rightarrow> Inl KeyError | Some lr \<Rightarrow> Inr lr)))"

text \<open>
  \<open>get_avg_lr\<close>: the value of the \<open>try\<close> block, and when that raises, the value of the
  handler, \<open>return optimizer.param_groups[0]['lr']\<close>. Nothing catches what the handler
  itself raises.
\<close>

definition get_avg_lr :: "optimizer option \<Rightarrow> error + complex" where
  "get_avg_lr opt =
     (case get_avg_lr_try opt of
        Some v \<Rightarrow> Inr v
      | None \<Rightarrow> (case first_group_lr opt of Inl e \<Rightarrow> Inl e | Inr lr \<Rightarrow> Inr (complex_of_real lr)))"

section \<open>trainer.py: the loss of one batch\<close>

text \<open>
  A tensor whose first dimension is the batch: one row per example, holding the
  entries of that example over all other dimensions (the mask already broadcast to the
  shape of the prediction). Means over the non-batch dimensions are means of rows.
  Reals stand for floats, so rounding is not modelled; a division by zero, which gives
  \<open>inf\<close> or \<open>nan\<close> in torch, gives 0 here, and the theorems below exclude it.
\<close>

type_synonym tensor = "real list list"

definition mean_list :: "real list \<Rightarrow> real" where
  "mean_list xs = sum_list xs / real (length xs)"

definition tsub :: "tensor \<Rightarrow> tensor \<Rightarrow> tensor" where
  "tsub a b = map2 (map2 (\<lambda>x y. x - y)) a b"

definition tmul :: "tensor \<Rightarrow> tensor \<Rightarrow> tensor" where
  "tmul a b = map2 (map2 (\<lambda>x y. x * y)) a b"

definition tpow2 :: "tensor \<Rightarrow> tensor" where
  "tpow2 a = map (map (\<lambda>x. x ^ 2)) a"

text \<open>What the loss is computed from: the model's prediction, the sampled noise, the
  mask, and \<open>compute_snr(noise_scheduler, timesteps)\<close>, one value per example.\<close>

record batch =
  model_pred :: tensor
  noise :: tensor
  mask :: tensor
  snr :: "real list"

text \<open>\<open>snr_gamma\<close> when it is not \<open>None\<close>: a finite float or \<open>float('inf')\<close>.\<close>

datatype gamma_value = Finite real | Infinity

definition min_gamma :: "real \<Rightarrow> gamma_value \<Rightarrow> real" where
  "min_gamma s g = (case g of Finite x \<Rightarrow> min s x | Infinity \<Rightarrow> s)"

text \<open>The prediction target: only \<open>epsilon\<close> is implemented.\<close>

definition prediction_target :: "string \<Rightarrow> batch \<Rightarrow> error + tensor" where
  "prediction_target prediction_type b =
     (if prediction_type = ''epsilon'' then Inr (noise b)
      else Inl (NotImplementedError
        (''Not implemented for noise_scheduler.config.prediction_type: '' @ prediction_type)))"

text \<open>
  The branch \<open>snr_gamma is None\<close>. Here \<open>loss\<close> still has every dimension when the
  mask's means are taken, so \<open>list(range(1, len(loss.shape)))\<close> names the non-batch
  dimensions: one mean per example.
\<close>

definition loss_unweighted :: "tensor \<Rightarrow> tensor \<Rightarrow> tensor \<Rightarrow> real" where
  "loss_unweighted pred target m =
     (let loss = tmul (tpow2 (tsub pred target)) m;
          mean_mask_values = map mean_list m;
          mean_mask_values' = map (\<lambda>v. v / mean_list mean_mask_values) mean_mask_values;
          loss' = map2 (\<lambda>x y. x / y) (map mean_list loss) mean_mask_values'
      in mean_list loss')"

text \<open>
  The branch with SNR weights. After \<open>loss = loss.mean(dim=...) * mse_loss_weights\<close>
  the loss has the batch dimension only, so in the block that follows,
  \<open>list(range(1, len(loss.shape)))\<close> is the empty list, and torch's \<open>mean(dim=[])\<close>
  reduces over every dimension: \<open>mean_mask_values\<close> is the mean of the whole mask, one
  number, its own mean is itself, and \<open>loss.mean(dim=[])\<close> is the batch mean.
\<close>

definition loss_snr :: "gamma_value \<Rightarrow> string \<Rightarrow> real list \<Rightarrow> tensor \<Rightarrow> tensor \<Rightarrow> tensor \<Rightarrow> real" where
  "loss_snr gamma prediction_type snr_values pred target m =
     (let base_weight = map (\<lambda>s. min_gamma s gamma / s) snr_values;
          mse_loss_weights =
            (if prediction_type = ''v_prediction'' then map (\<lambda>w. w + 1) base_weight else base_weight);
          mse_loss_weights' = map (\<lambda>w. w / mean_list mse_loss_weights) mse_loss_weights;
          loss = tmul (tpow2 (tsub pred target)) m;
          loss' = map2 (\<lambda>x w. x * w) (map mean_list loss) mse_loss_weights';
          mean_mask_values = mean_list (concat m);
          mean_mask_values' = mean_mask_values / mean_mask_values;
          loss'' = mean_list loss' / mean_mask_values'
      in loss'')"

text \<open>
  The normalized L1 norm of the adapter weights (each parameter a list of its
  entries). Python's \<open>sum\<close> of no tensors is the int 0, so with no parameter at all the
  quotient is \<open>0 / 0\<close> of ints and raises.
\<close>

definition l1_norm :: "real list list \<Rightarrow> error + real" where
  "l1_norm ps =
     (if ps = [] then Inl ZeroDivisionError
      else Inr (sum_list (map (\<lambda>p. sum_list (map abs p)) ps) / real (sum_list (map length ps))))"

definition add_l1_penalty :: "real \<Rightarrow> real list list \<Rightarrow> real \<Rightarrow> error + real" where
  "add_l1_penalty penalty ps loss =
     (if penalty > 0 then
        (case l1_norm ps of Inl e \<Rightarrow> Inl e | Inr n \<Rightarrow> Inr (loss + penalty * n))
      else Inr loss)"

definition compute_loss ::
  "gamma_value option \<Rightarrow> real \<Rightarrow> string \<Rightarrow> batch \<Rightarrow> real list list \<Rightarrow> error + real" where
  "compute_loss snr_gamma penalty prediction_type b lora_values =
     (case prediction_target prediction_type b of
        Inl e \<Rightarrow> Inl e
      | Inr target \<Rightarrow>
          add_l1_penalty penalty lora_values
            (case snr_gamma of
               None \<Rightarrow> loss_unweighted (model_pred b) target (mask b)
             | Some gamma \<Rightarrow> loss_snr gamma prediction_type (snr b) (model_pred b) target (mask b)))"

text \<open>
  The plain mean squared error of the specification: the mean of \<open>(p - t)^2\<close> over
  every entry of the batch.
\<close>

definition mse :: "tensor \<Rightarrow> tensor \<Rightarrow> real" where
  "mse pred target = mean_list (concat (tpow2 (tsub pred target)))"

text \<open>A tensor of \<open>B\<close> examples with \<open>n\<close> entries each.\<close>

definition has_shape :: "nat \<Rightarrow> nat \<Rightarrow> tensor \<Rightarrow> bool" where
  "has_shape B n t = (length t = B \<and> list_all (\<lambda>r. length r = n) t)"

section \<open>trainer.py: the learning rate of textual inversion\<close>

definition finegrained_epoch :: "nat \<Rightarrow> nat \<Rightarrow> nat \<Rightarrow> real" where
  "finegrained_epoch epoch step len_train_dataloader = real epoch + real step / real len_train_dataloader"

definition completion_f :: "nat \<Rightarrow> nat \<Rightarrow> nat \<Rightarrow> int \<Rightarrow> real" where
  "completion_f epoch step len_train_dataloader num_train_epochs =
     finegrained_epoch epoch step len_train_dataloader / real_of_int num_train_epochs"

definition decayed_lr :: "real \<Rightarrow> nat \<Rightarrow> nat \<Rightarrow> nat \<Rightarrow> int \<Rightarrow> real" where
  "decayed_lr textual_inversion_lr epoch step len_train_dataloader num_train_epochs =
     textual_inversion_lr * (1 - completion_f epoch step len_train_dataloader num_train_epochs) ^ 2"

section \<open>trainer.py: Trainer.train\<close>

text \<open>
  The fields of \<open>self.config\<close> that decide what \<open>train\<close> does to its counters, its
  optimizer handles and its checkpoints (\<open>lr_num_cycles\<close> and \<open>lr_power\<close> only
  parametrize schedules that are left to the collaborators below).
\<close>

record trainer_config =
  cfg_scale_lr_based_on_grad_acc :: bool
  cfg_is_lora :: bool
  cfg_optimizer_name :: string
  cfg_textual_inversion_lr :: real
  cfg_textual_inversion_weight_decay :: real
  cfg_lora_weight_decay :: real
  cfg_gradient_accumulation_steps :: int
  cfg_max_train_steps :: "int option"
  cfg_lr_scheduler_name :: string
  cfg_lr_warmup_steps :: int
  cfg_resolution :: int
  cfg_checkpointing_steps :: int
  cfg_hard_pivot :: bool
  cfg_snr_gamma :: "gamma_value option"
  cfg_l1_penalty :: real
  cfg_debug :: bool

text \<open>
  What the run gets from its collaborators: the number of batches of the data loader,
  the scheduler's prediction type, the parameters handed to the optimizers, the tensors
  of the forward pass at each (epoch, step), the values of the adapter weights at each
  global step, the step size estimate \<open>d\<close> that Prodigy holds after its k-th step,
  how many embedding tables \<open>get_trainable_embeddings\<close> returns, and what
  \<open>diffusers\<close> builds for a schedule name other than the two modelled below: the
  multiplier function of the schedule, by name, warm-up steps and training steps, or
  the exception it raises.
\<close>

record train_env =
  len_train_dataloader :: nat
  prediction_type :: string
  text_encoder_parameters :: "param list"
  unet_lora_parameters :: "param list"
  batch_at :: "nat \<Rightarrow> nat \<Rightarrow> batch"
  lora_values_at :: "nat \<Rightarrow> real list list"
  prodigy_d :: "int \<Rightarrow> real"
  n_trainable_embeddings :: nat
  other_schedules :: "string \<Rightarrow> int \<Rightarrow> int \<Rightarrow> error + (int \<Rightarrow> real)"

text \<open>
  The variables of \<open>train\<close> that the loop changes. \<open>checkpoints\<close> lists the step number
  \<open>N\<close> of every directory \<open>checkpoints/checkpoint-N\<close>, in the order written (the
  directory \<open>checkpoints\<close> is emptied before the loop). \<open>pivots\<close> counts how often the
  body of the pivot ran (it prints a banner), \<open>ti_updates\<close> how often
  \<open>optimizer.step()\<close> ran on the textual-inversion optimizer. \<open>target_size\<close> is the
  local variable of that name, \<open>None\<close> while it is unbound: the loop body assigns it
  (line 323) and the final save reads it (line 549). The values of the trained
  tensors themselves are not part of the state.
\<close>

record train_state =
  global_step :: nat
  last_save_step :: nat
  optimizer :: "optimizer option"
  optimizer_prod :: "optimizer option"
  ti_lrs :: "real list"
  lora_lrs :: "complex list"
  losses :: "real list"
  checkpoints :: "nat list"
  pivots :: nat
  ti_updates :: nat
  target_size :: "(int \<times> int) option"

text \<open>\<open>math.ceil(a / b)\<close> on ints.\<close>

definition py_ceil_div :: "int \<Rightarrow> int \<Rightarrow> error + int" where
  "py_ceil_div a b = (if b = 0 then Inl ZeroDivisionError else Inr \<lceil>real_of_int a / real_of_int b\<rceil>)"

text \<open>
  The two optimizers, by \<open>optimizer_name\<close>; with any other name neither variable is
  bound, which is \<open>None\<close> of the outer option here.
\<close>

definition make_optimizers ::
  "trainer_config \<Rightarrow> train_env \<Rightarrow> (optimizer option \<times> optimizer option) option" where
  "make_optimizers cfg env =
     (let params_to_optimize =
            [\<lparr>gs_params = text_encoder_parameters env,
              gs_lr = Some (cfg_textual_inversion_lr cfg),
              gs_weight_decay = Some (cfg_textual_inversion_weight_decay cfg)\<rparr>];
          params_to_optimize_prodigy =
            [\<lparr>gs_params = unet_lora_parameters env,
              gs_lr = Some 1,
              gs_weight_decay = Some (cfg_lora_weight_decay cfg)\<rparr>]
      in if cfg_optimizer_name cfg = ''adamw'' then
           Some (Some (torch_AdamW params_to_optimize (1 / 1000) 0), None)
         else if cfg_optimizer_name cfg = ''prodigy'' then
           Some (Some (torch_AdamW params_to_optimize (1 / 1000) (cfg_textual_inversion_weight_decay cfg)),
                 Some (prodigyopt_Prodigy params_to_optimize_prodigy (33 / 100) 1 (cfg_lora_weight_decay cfg)
                         (9 / 10, 99 / 100) True (Some (1025 / 1000))))
         else None)"

text \<open>
  \<open>diffusers.optimization.get_scheduler(name, optimizer, num_warmup_steps,
  num_training_steps, ...)\<close> returns a \<open>LambdaLR\<close> on the optimizer. Its multiplier
  function, by schedule name: \<open>constant\<close> is 1 at every step, and
  \<open>constant_with_warmup\<close> is \<open>step / max(1, num_warmup_steps)\<close> below
  \<open>num_warmup_steps\<close> and 1 from there on; the other names are the collaborators'.
\<close>

definition get_scheduler :: "train_env \<Rightarrow> string \<Rightarrow> int \<Rightarrow> int \<Rightarrow> error + (int \<Rightarrow> real)" where
  "get_scheduler env name' num_warmup_steps num_training_steps =
     (if name' = ''constant'' then Inr (\<lambda>current_step. 1)
      else if name' = ''constant_with_warmup'' then
        Inr (\<lambda>current_step.
               if current_step < num_warmup_steps
               then real_of_int current_step / max 1 (real_of_int num_warmup_steps)
               else 1)
      else other_schedules env name' num_warmup_steps num_training_steps)"

text \<open>
  The constructor of \<open>LambdaLR\<close> takes its first step at once: it sets the learning
  rate of every parameter group to the group's rate times the multiplier at step 0.
\<close>

definition lambda_lr_init :: "(int \<Rightarrow> real) \<Rightarrow> optimizer \<Rightarrow> optimizer" where
  "lambda_lr_init lr_lambda ob =
     ob\<lparr>param_groups :=
          map_option (map (\<lambda>g. g\<lparr>pg_lr := map_option (\<lambda>lr. lr * lr_lambda 0) (pg_lr g)\<rparr>))
            (param_groups ob)\<rparr>"

text \<open>
  Everything before the loop: the state the loop starts in and \<open>num_train_epochs\<close>.
  \<open>unet_learning_rate\<close> is read before it is assigned when
  \<open>scale_lr_based_on_grad_acc\<close> is set or \<open>is_lora\<close> is not, and so is
  \<open>num_train_epochs\<close> when \<open>max_train_steps\<close> is \<open>None\<close>, and \<open>optimizer\<close> (an
  argument of \<open>get_scheduler\<close>) when the optimizer name is unknown. The schedule is
  built on the textual-inversion optimizer; the loop never steps it.
\<close>

definition train_setup :: "trainer_config \<Rightarrow> train_env \<Rightarrow> error + (train_state \<times> int)" where
  "train_setup cfg env =
     (if cfg_scale_lr_based_on_grad_acc cfg then Inl UnboundLocalError
      else if \<not> cfg_is_lora cfg then Inl UnboundLocalError
      else
        (case py_ceil_div (int (len_train_dataloader env)) (cfg_gradient_accumulation_steps cfg) of
           Inl e \<Rightarrow> Inl e
         | Inr num_update_steps_per_epoch \<Rightarrow>
             (case cfg_max_train_steps cfg of
                None \<Rightarrow> Inl UnboundLocalError
              | Some max_train_steps' \<Rightarrow>
                  (case make_optimizers cfg env of
                     None \<Rightarrow> Inl UnboundLocalError
                   | Some (opt, opt_prod) \<Rightarrow>
                       (case get_scheduler env (cfg_lr_scheduler_name cfg)
                               (cfg_lr_warmup_steps cfg * cfg_gradient_accumulation_steps cfg)
                               (max_train_steps' * cfg_gradient_accumulation_steps cfg) of
                          Inl e \<Rightarrow> Inl e
                        | Inr lr_lambda \<Rightarrow>
                            (case py_ceil_div max_train_steps' num_update_steps_per_epoch of
                               Inl e \<Rightarrow> Inl e
                             | Inr num_train_epochs \<Rightarrow>
                                 Inr (\<lparr>global_step = 0, last_save_step = 0,
                                       optimizer = map_option (lambda_lr_init lr_lambda) opt,
                                       optimizer_prod = opt_prod,
                                       ti_lrs = [], lora_lrs = [], losses = [],
                                       checkpoints = [], pivots = 0, ti_updates = 0,
                                       target_size = None\<rparr>,
                                      num_train_epochs)))))))"

text \<open>
  Lines 272 to 290: with \<open>hard_pivot\<close>, from epoch \<open>num_train_epochs // 2\<close> on, a live
  textual-inversion optimizer is stripped of its parameter groups and state and the
  handle is set to \<open>None\<close>; without \<open>hard_pivot\<close>, the learning rate of its first
  parameter group is set to the decayed rate.
\<close>

definition set_first_group_lr :: "real \<Rightarrow> optimizer option \<Rightarrow> error + optimizer option" where
  "set_first_group_lr lr opt =
     (case opt of
        None \<Rightarrow> Inl AttributeError
      | Some ob \<Rightarrow>
          (case param_groups ob of
             None \<Rightarrow> Inl TypeError
           | Some [] \<Rightarrow> Inl IndexError
           | Some (g # gs) \<Rightarrow> Inr (Some (ob\<lparr>param_groups := Some (g\<lparr>pg_lr := Some lr\<rparr> # gs)\<rparr>))))"

definition pivot_or_decay ::
  "trainer_config \<Rightarrow> train_env \<Rightarrow> int \<Rightarrow> nat \<Rightarrow> nat \<Rightarrow> train_state \<Rightarrow> error + train_state" where
  "pivot_or_decay cfg env num_train_epochs epoch step s =
     (if cfg_hard_pivot cfg then
        (if int epoch \<ge> num_train_epochs div 2 then
           (if optimizer s \<noteq> None then Inr (s\<lparr>optimizer := None, pivots := pivots s + 1\<rparr>)
            else Inr s)
         else Inr s)
      else if len_train_dataloader env = 0 \<or> num_train_epochs = 0 then Inl ZeroDivisionError
      else
        (case set_first_group_lr
                (decayed_lr (cfg_textual_inversion_lr cfg) epoch step (len_train_dataloader env) num_train_epochs)
                (optimizer s) of
           Inl e \<Rightarrow> Inl e
         | Inr opt \<Rightarrow> Inr (s\<lparr>optimizer := opt\<rparr>)))"

text \<open>Lines 322 and 323: the sizes of the spatial conditions.\<close>

definition set_target_size :: "trainer_config \<Rightarrow> train_state \<Rightarrow> train_state" where
  "set_target_size cfg s = s\<lparr>target_size := Some (cfg_resolution cfg, cfg_resolution cfg)\<rparr>"

text \<open>Lines 376 to 418: the loss of the batch, appended to \<open>losses\<close>.\<close>

definition record_loss ::
  "trainer_config \<Rightarrow> train_env \<Rightarrow> nat \<Rightarrow> nat \<Rightarrow> train_state \<Rightarrow> error + train_state" where
  "record_loss cfg env epoch step s =
     (case compute_loss (cfg_snr_gamma cfg) (cfg_l1_penalty cfg) (prediction_type env)
             (batch_at env epoch step) (lora_values_at env (global_step s)) of
        Inl e \<Rightarrow> Inl e
      | Inr loss \<Rightarrow> Inr (s\<lparr>losses := losses s @ [loss]\<rparr>))"

text \<open>
  \<open>optimizer_prod.step()\<close>, as far as \<open>get_avg_lr\<close> can see it: Prodigy advances the
  counter \<open>k\<close> of every group and stores its new estimate \<open>d\<close>.
\<close>

definition prodigy_step :: "train_env \<Rightarrow> optimizer \<Rightarrow> optimizer" where
  "prodigy_step env ob =
     ob\<lparr>param_groups :=
          map_option (map (\<lambda>g. g\<lparr>pg_d := map_option (\<lambda>k. prodigy_d env (k + 1)) (pg_k g),
                                 pg_k := map_option (\<lambda>k. k + 1) (pg_k g)\<rparr>)) (param_groups ob)\<rparr>"

text \<open>
  Lines 428 to 440: on an accumulation boundary, and on the last batch of an epoch,
  every optimizer that is not \<open>None\<close> steps.
\<close>

definition accumulation_boundary ::
  "trainer_config \<Rightarrow> train_env \<Rightarrow> nat \<Rightarrow> train_state \<Rightarrow> error + train_state" where
  "accumulation_boundary cfg env step s =
     (let last_batch = (step + 1 = len_train_dataloader env)
      in if cfg_gradient_accumulation_steps cfg = 0 then Inl ZeroDivisionError
         else if int (step + 1) mod cfg_gradient_accumulation_steps cfg = 0 \<or> last_batch then
           Inr (s\<lparr>ti_updates := (if optimizer s \<noteq> None then ti_updates s + 1 else ti_updates s),
                  optimizer_prod := map_option (prodigy_step env) (optimizer_prod s)\<rparr>)
         else Inr s)"

text \<open>
  Lines 443 to 447: the rate of the adapter optimizer by \<open>get_avg_lr\<close> (the function
  of utils.py above), whose exception nothing catches here, and the rate of textual
  inversion inside \<open>try\<close>, with 0.0 for every exception.
\<close>

definition query_ti_lr :: "optimizer option \<Rightarrow> real" where
  "query_ti_lr opt = (case first_group_lr opt of Inl e \<Rightarrow> 0 | Inr lr \<Rightarrow> lr)"

definition track_lrs :: "train_state \<Rightarrow> error + train_state" where
  "track_lrs s =
     (case get_avg_lr (optimizer_prod s) of
        Inl e \<Rightarrow> Inl e
      | Inr v \<Rightarrow>
          Inr (s\<lparr>lora_lrs := lora_lrs s @ [v],
                 ti_lrs := ti_lrs s @ [query_ti_lr (optimizer s)]\<rparr>))"

text \<open>
  Lines 450 to 516: the periodic checkpoint. With \<open>debug\<close> set, the loop over the
  trainable embeddings reads \<open>self.config.checkpointing_stepsoutput_dir\<close>, an
  attribute the configuration does not have.
\<close>

definition periodic_checkpoint ::
  "trainer_config \<Rightarrow> train_env \<Rightarrow> train_state \<Rightarrow> error + train_state" where
  "periodic_checkpoint cfg env s =
     (if cfg_checkpointing_steps cfg = 0 then Inl ZeroDivisionError
      else if int (global_step s) mod cfg_checkpointing_steps cfg = 0 then
        (if cfg_debug cfg \<and> n_trainable_embeddings env > 0 then Inl AttributeError
         else Inr (s\<lparr>checkpoints := checkpoints s @ [global_step s], last_save_step := global_step s\<rparr>))
      else Inr s)"

definition advance :: "train_state \<Rightarrow> train_state" where
  "advance s = s\<lparr>global_step := global_step s + 1\<rparr>"

text \<open>One pass through the body of the inner loop.\<close>

definition train_step ::
  "trainer_config \<Rightarrow> train_env \<Rightarrow> int \<Rightarrow> nat \<Rightarrow> nat \<Rightarrow> train_state \<Rightarrow> error + train_state" where
  "train_step cfg env num_train_epochs epoch step s =
     bind_err (pivot_or_decay cfg env num_train_epochs epoch step s) (\<lambda>s1.
     bind_err (record_loss cfg env epoch step (set_target_size cfg s1)) (\<lambda>s2.
     bind_err (accumulation_boundary cfg env step s2) (\<lambda>s3.
     bind_err (track_lrs s3) (\<lambda>s4.
     bind_err (periodic_checkpoint cfg env s4) (\<lambda>s5.
     Inr (advance s5))))))"

text \<open>\<open>for step, batch in enumerate(train_dataloader)\<close> and \<open>for epoch in range(...)\<close>.\<close>

fun run_steps ::
  "trainer_config \<Rightarrow> train_env \<Rightarrow> int \<Rightarrow> nat \<Rightarrow> nat list \<Rightarrow> train_state \<Rightarrow> error + train_state" where
  "run_steps cfg env num_train_epochs epoch [] s = Inr s"
| "run_steps cfg env num_train_epochs epoch (step # steps) s =
     (case train_step cfg env num_train_epochs epoch step s of
        Inl e \<Rightarrow> Inl e
      | Inr s' \<Rightarrow> run_steps cfg env num_train_epochs epoch steps s')"

fun run_epochs ::
  "trainer_config \<Rightarrow> train_env \<Rightarrow> int \<Rightarrow> nat list \<Rightarrow> train_state \<Rightarrow> error + train_state" where
  "run_epochs cfg env num_train_epochs [] s = Inr s"
| "run_epochs cfg env num_train_epochs (epoch # epochs) s =
     (case run_steps cfg env num_train_epochs epoch [0 ..< len_train_dataloader env] s of
        Inl e \<Rightarrow> Inl e
      | Inr s' \<Rightarrow> run_epochs cfg env num_train_epochs epochs s')"

text \<open>
  Lines 525 to 551: the directory of the final save is that of the final step when the
  last checkpoint is more than 51 steps behind, else that of the last checkpoint; it
  is written unless it exists. After writing it, \<open>render_images\<close> is called with
  \<open>target_size\<close>, which is unbound when the loop body never ran.
\<close>

definition final_save_step :: "train_state \<Rightarrow> nat" where
  "final_save_step s =
     (if int (global_step s) - int (last_save_step s) > 51 then global_step s else last_save_step s)"

definition final_save :: "train_state \<Rightarrow> error + train_state" where
  "final_save s =
     (if final_save_step s \<notin> set (checkpoints s)
      then (case target_size s of
              None \<Rightarrow> Inl UnboundLocalError
            | Some ts \<Rightarrow> Inr (s\<lparr>checkpoints := checkpoints s @ [final_save_step s]\<rparr>))
      else Inr s)"

text \<open>
  \<open>train\<close>: the step number of the directory it returns, and the final state.
\<close>

definition train :: "trainer_config \<Rightarrow> train_env \<Rightarrow> error + (nat \<times> train_state)" where
  "train cfg env =
     (case train_setup cfg env of
        Inl e \<Rightarrow> Inl e
      | Inr (s0, num_train_epochs) \<Rightarrow>
          (case run_epochs cfg env num_train_epochs [0 ..< nat num_train_epochs] s0 of
             Inl e \<Rightarrow> Inl e
           | Inr s \<Rightarrow>
               (case final_save s of
                  Inl e \<Rightarrow> Inl e
                | Inr s' \<Rightarrow> Inr (final_save_step s, s'))))"

section \<open>Conditions and invariants of a run\<close>

text \<open>
  A Prodigy handle on which \<open>get_avg_lr\<close> finds every key it reads, with the betas
  that \<open>train\<close> passes and a step counter that is not negative.
\<close>

definition prodigy_group_ok :: "param_group \<Rightarrow> bool" where
  "prodigy_group_ok g =
     (pg_d g \<noteq> None \<and> pg_lr g \<noteq> None \<and> pg_use_bias_correction g = Some True
      \<and> pg_betas g = Some (9 / 10, 99 / 100)
      \<and> (case pg_k g of None \<Rightarrow> False | Some k \<Rightarrow> 0 \<le> k))"

definition prodigy_ok :: "optimizer option \<Rightarrow> bool" where
  "prodigy_ok opt =
     (case opt of
        None \<Rightarrow> False
      | Some ob \<Rightarrow> (case param_groups ob of None \<Rightarrow> False | Some gs \<Rightarrow> list_all prodigy_group_ok gs))"

text \<open>A textual-inversion handle that is not \<open>None\<close> and has a first parameter group.\<close>

definition ti_live :: "optimizer option \<Rightarrow> bool" where
  "ti_live opt =
     (case opt of
        None \<Rightarrow> False
      | Some ob \<Rightarrow> (case param_groups ob of None \<Rightarrow> False | Some gs \<Rightarrow> gs \<noteq> []))"

text \<open>
  What keeps the body of the loop from raising, apart from the optimizer handles: a
  data loader that is not empty, non-zero accumulation and checkpoint intervals, the
  \<open>epsilon\<close> prediction type, adapter weights to take the L1 norm of when the penalty is
  on, and no debug plots of embeddings.
\<close>

definition step_ok :: "trainer_config \<Rightarrow> train_env \<Rightarrow> bool" where
  "step_ok cfg env =
     (0 < len_train_dataloader env
      \<and> cfg_gradient_accumulation_steps cfg \<noteq> 0
      \<and> cfg_checkpointing_steps cfg \<noteq> 0
      \<and> prediction_type env = ''epsilon''
      \<and> (cfg_l1_penalty cfg \<le> 0 \<or> (\<forall>g. lora_values_at env g \<noteq> []))
      \<and> (\<not> cfg_debug cfg \<or> n_trainable_embeddings env = 0))"

text \<open>
  What lets \<open>train\<close> reach its loop, run it and return: LoRA training with the
  Prodigy optimizer, a positive accumulation interval, a positive \<open>max_train_steps\<close>
  (so that the loop body runs), and a schedule that \<open>get_scheduler\<close> can build.
\<close>

definition run_ok :: "trainer_config \<Rightarrow> train_env \<Rightarrow> bool" where
  "run_ok cfg env =
     (step_ok cfg env
      \<and> \<not> cfg_scale_lr_based_on_grad_acc cfg
      \<and> cfg_is_lora cfg
      \<and> cfg_optimizer_name cfg = ''prodigy''
      \<and> 0 < cfg_gradient_accumulation_steps cfg
      \<and> (case cfg_max_train_steps cfg of
            None \<Rightarrow> False
          | Some m \<Rightarrow>
              0 < m \<and> (case get_scheduler env (cfg_lr_scheduler_name cfg)
                                (cfg_lr_warmup_steps cfg * cfg_gradient_accumulation_steps cfg)
                                (m * cfg_gradient_accumulation_steps cfg) of
                           Inl e \<Rightarrow> False
                         | Inr lr_lambda \<Rightarrow> True)))"

text \<open>
  The invariants of the loop: the adapter optimizer can be queried, the
  textual-inversion handle is live unless the run pivots, and \<open>last_save_step\<close> is
  the last checkpoint written (0 before the first).
\<close>

definition handles_ok :: "trainer_config \<Rightarrow> train_state \<Rightarrow> bool" where
  "handles_ok cfg s = (prodigy_ok (optimizer_prod s) \<and> (cfg_hard_pivot cfg \<or> ti_live (optimizer s)))"

definition last_save_ok :: "train_state \<Rightarrow> bool" where
  "last_save_ok s = (last_save_step s = (if checkpoints s = [] then 0 else last (checkpoints s)))"

text \<open>\<open>num_train_epochs\<close> as \<open>train\<close> computes it, for \<open>max_train_steps = m\<close>.\<close>

definition epochs_of :: "trainer_config \<Rightarrow> train_env \<Rightarrow> int \<Rightarrow> int" where
  "epochs_of cfg env m =
     \<lceil>real_of_int m /
        real_of_int \<lceil>real_of_int (int (len_train_dataloader env))
                       / real_of_int (cfg_gradient_accumulation_steps cfg)\<rceil>\<rceil>"

text \<open>The global steps below \<open>n\<close> at which the periodic checkpoint is written.\<close>

definition periodic_steps :: "int \<Rightarrow> nat \<Rightarrow> nat \<Rightarrow> nat list" where
  "periodic_steps checkpointing_steps a b = filter (\<lambda>g. int g mod checkpointing_steps = 0) [a ..< b]"

text \<open>What a run leaves behind, or \<open>None\<close> when it raises.\<close>

definition train_checkpoints :: "trainer_config \<Rightarrow> train_env \<Rightarrow> nat list option" where
  "train_checkpoints cfg env = (case train cfg env of Inl e \<Rightarrow> None | Inr (out, s) \<Rightarrow> Some (checkpoints s))"

definition train_global_step :: "trainer_config \<Rightarrow> train_env \<Rightarrow> nat option" where
  "train_global_step cfg env = (case train cfg env of Inl e \<Rightarrow> None | Inr (out, s) \<Rightarrow> Some (global_step s))"

definition train_ti_lrs :: "trainer_config \<Rightarrow> train_env \<Rightarrow> real list option" where
  "train_ti_lrs cfg env = (case train cfg env of Inl e \<Rightarrow> None | Inr (out, s) \<Rightarrow> Some (ti_lrs s))"

text \<open>
  The rates a run records, epoch by epoch, when the textual-inversion optimizer
  enters the loop with the rate \<open>lr0\<close>.
\<close>

definition expected_ti_lrs :: "trainer_config \<Rightarrow> train_env \<Rightarrow> int \<Rightarrow> real \<Rightarrow> real list" where
  "expected_ti_lrs cfg env E lr0 =
     concat (map (\<lambda>e.
        if cfg_hard_pivot cfg
        then replicate (len_train_dataloader env) (if E div 2 \<le> int e then 0 else lr0)
        else map (\<lambda>st. decayed_lr (cfg_textual_inversion_lr cfg) e st (len_train_dataloader env) E)
               [0 ..< len_train_dataloader env]) [0 ..< nat E])"

section \<open>Concrete inputs\<close>

text \<open>A user configuration with DoRA switched on and non-zero penalties, and a clock.\<close>

definition dora_data :: "unit training_config" where
  "dora_data =
     \<lparr>sd_model_version = Sdxl, concept_mode = Face, caption_model = Blip, pretrained_model = None,
      seed = None, resolution = 512, max_train_steps = 360, unet_lr_warmup_steps = None,
      prodigy_d_coef = 1, lora_weight_decay = 2 / 1000, l1_penalty = 1 / 100, use_dora = True,
      left_right_flip_augmentation = True, mask_target_prompts = None, name = None,
      output_dir = ''lora_models/unnamed'', n_tokens = 2, inserting_list_tokens = [''<s0>'', ''<s1>''],
      token_dict = [(''TOK'', ''<s0><s1>'')], device = ''cuda:0'', start_time = 0,
      text_encoder_lora_weight_decay = 1 / 100000\<rparr>"

definition some_env :: "unit init_env" where
  "some_env =
     \<lparr>pretrained_models = (\<lambda>v. ()), timestamp_short = ''03_17-15-00'', time_now = 5 / 2,
      str_float = (\<lambda>x. ''1.0''), gpu_free_memory = Some [3, 7, 7]\<rparr>"

text \<open>One example with one entry, its mask uniformly 1/2.\<close>

definition half_mask_batch :: batch where
  "half_mask_batch = \<lparr>model_pred = [[1]], noise = [[0]], mask = [[1 / 2]], snr = [1]\<rparr>"

text \<open>Two examples with one entry each, whose masks have different means.\<close>

definition uneven_mask_batch :: batch where
  "uneven_mask_batch = \<lparr>model_pred = [[1], [0]], noise = [[0], [0]], mask = [[1], [1 / 2]], snr = [1, 1]\<rparr>"

text \<open>Two examples with two entries each, every mask entry 1.\<close>

definition ones_mask_batch :: batch where
  "ones_mask_batch =
     \<lparr>model_pred = [[1, 2], [3, 5]], noise = [[0, 0], [1, 1]], mask = [[1, 1], [1, 1]], snr = [1, 1]\<rparr>"

text \<open>
  A configuration with which \<open>train\<close> runs to its end (LoRA, Prodigy, the
  \<open>constant\<close> schedule, no gradient accumulation, no debug plots), by
  \<open>max_train_steps\<close>, \<open>checkpointing_steps\<close> and \<open>hard_pivot\<close>; the same with 10
  warm-up steps of the \<open>constant_with_warmup\<close> schedule; and collaborators with a data
  loader of \<open>n\<close> batches.
\<close>

definition prodigy_cfg :: "int \<Rightarrow> int \<Rightarrow> bool \<Rightarrow> trainer_config" where
  "prodigy_cfg max_steps checkpointing hard =
     \<lparr>cfg_scale_lr_based_on_grad_acc = False, cfg_is_lora = True, cfg_optimizer_name = ''prodigy'',
      cfg_textual_inversion_lr = 1 / 1000, cfg_textual_inversion_weight_decay = 0,
      cfg_lora_weight_decay = 2 / 1000, cfg_gradient_accumulation_steps = 1,
      cfg_max_train_steps = Some max_steps, cfg_lr_scheduler_name = ''constant'',
      cfg_lr_warmup_steps = 0, cfg_resolution = 512, cfg_checkpointing_steps = checkpointing,
      cfg_hard_pivot = hard, cfg_snr_gamma = None, cfg_l1_penalty = 0, cfg_debug = False\<rparr>"

definition warmup_cfg :: "int \<Rightarrow> int \<Rightarrow> bool \<Rightarrow> trainer_config" where
  "warmup_cfg max_steps checkpointing hard =
     (prodigy_cfg max_steps checkpointing hard)
       \<lparr>cfg_lr_scheduler_name := ''constant_with_warmup'', cfg_lr_warmup_steps := 10\<rparr>"

definition loader_env :: "nat \<Rightarrow> train_env" where
  "loader_env n =
     \<lparr>len_train_dataloader = n, prediction_type = ''epsilon'',
      text_encoder_parameters = [\<lparr>numel = 1536, requires_grad = True\<rparr>],
      unet_lora_parameters = [\<lparr>numel = 4096, requires_grad = True\<rparr>],
      batch_at = (\<lambda>epoch step. ones_mask_batch), lora_values_at = (\<lambda>g. [[1 / 10, - 1 / 10]]),
      prodigy_d = (\<lambda>k. 1 / 1000000), n_trainable_embeddings = 2,
      other_schedules = (\<lambda>name' warmup training. Inl ValueError)\<rparr>"

text \<open>A state in the middle of a run, both optimizers live.\<close>

definition live_state :: train_state where
  "live_state =
     \<lparr>global_step = 10, last_save_step = 0,
      optimizer = Some (torch_AdamW
        [\<lparr>gs_params = [\<lparr>numel = 1536, requires_grad = True\<rparr>], gs_lr = Some (1 / 1000),
          gs_weight_decay = Some 0\<rparr>] (1 / 1000) 0),
      optimizer_prod = Some (prodigyopt_Prodigy
        [\<lparr>gs_params = [\<lparr>numel = 4096, requires_grad = True\<rparr>], gs_lr = Some 1,
          gs_weight_decay = Some (2 / 1000)\<rparr>] (33 / 100) 1 (2 / 1000) (9 / 10, 99 / 100) True
        (Some (1025 / 1000))),
      ti_lrs = [], lora_lrs = [], losses = [], checkpoints = [0], pivots = 0, ti_updates = 10,
      target_size = Some (512, 512)\<rparr>"

section \<open>Properties of the configuration and the optimizers\<close>

text \<open>
  Claim C10. A configuration constructed with \<open>use_dora\<close> has \<open>l1_penalty\<close>,
  \<open>lora_weight_decay\<close> and \<open>text_encoder_lora_weight_decay\<close> equal to 0, whatever the
  user supplied, and with that penalty coefficient the loss gets no L1 term.
\<close>

theorem dora_disables_l1_penalty:
  "use_dora data \<Longrightarrow>
     l1_penalty (training_config_init env data) = 0
   \<and> lora_weight_decay (training_config_init env data) = 0
   \<and> text_encoder_lora_weight_decay (training_config_init env data) = 0
   \<and> add_l1_penalty (l1_penalty (training_config_init env data)) ps loss = Inr loss"
  by (simp add: training_config_init_def set_device_def build_tokens_def dora_mode_def face_mode_def
      set_unet_lr_warmup_steps_def set_seed_def set_output_dir_def set_name_def set_pretrained_model_def
      add_l1_penalty_def Let_def)

theorem dora_disables_l1_penalty_witness:
  "use_dora dora_data \<and> l1_penalty dora_data = 1 / 100
   \<and> l1_penalty (training_config_init some_env dora_data) = 0
   \<and> lora_weight_decay (training_config_init some_env dora_data) = 0
   \<and> text_encoder_lora_weight_decay (training_config_init some_env dora_data) = 0
   \<and> add_l1_penalty (l1_penalty (training_config_init some_env dora_data)) [[1, - 2]] 3 = Inr 3"
proof -
  have h: "use_dora dora_data" by (simp add: dora_data_def)
  moreover have "l1_penalty dora_data = 1 / 100" by (simp add: dora_data_def)
  ultimately show ?thesis
    using dora_disables_l1_penalty [OF h, of some_env "[[1, - 2]]" 3] by blast
qed

text \<open>
  Claim C8. With an optimizer name other than \<open>adamw\<close> and \<open>prodigy\<close>, each constructor
  of optimizer.py raises \<open>NotImplementedError\<close>, and \<open>train\<close> raises before its loop:
  no default algorithm is used.
\<close>

theorem unknown_optimizer_name_raises:
  "optimizer_name \<noteq> ''adamw'' \<Longrightarrow> optimizer_name \<noteq> ''prodigy'' \<Longrightarrow>
     get_unet_optimizer d_coef wd dora ps optimizer_name
       = Inl (NotImplementedError (''Invalid optimizer_name for unet: '' @ optimizer_name))
   \<and> get_textual_inversion_optimizer tes lr wd' optimizer_name
       = Inl (NotImplementedError (''Invalid optimizer_name: '' @ [CHR 0x27] @ optimizer_name @ [CHR 0x27]))
   \<and> get_optimizer_text_encoder_lora lps dora' optimizer_name llr lwd
       = Inl (NotImplementedError
           (''Text encoder LoRA finetuning is not yet implemented for optimizer: '' @ optimizer_name))
   \<and> (\<exists>e. train (cfg\<lparr>cfg_optimizer_name := optimizer_name\<rparr>) env = Inl e)"
  by (auto simp add: get_unet_optimizer_def get_textual_inversion_optimizer_def
      get_optimizer_text_encoder_lora_def train_def train_setup_def make_optimizers_def Let_def
      split: sum.splits option.splits)

theorem unknown_optimizer_name_raises_witness:
  "''sgd'' \<noteq> ''adamw'' \<and> ''sgd'' \<noteq> ''prodigy''
   \<and> get_unet_optimizer 1 0 False [] ''sgd''
       = Inl (NotImplementedError ''Invalid optimizer_name for unet: sgd'')
   \<and> get_textual_inversion_optimizer [] (1 / 1000) 0 ''sgd''
       = Inl (NotImplementedError (''Invalid optimizer_name: '' @ [CHR 0x27] @ ''sgd'' @ [CHR 0x27]))"
proof -
  have h1: "''sgd'' \<noteq> ''adamw''" and h2: "''sgd'' \<noteq> ''prodigy''" by simp_all
  show ?thesis
    using h1 h2 unknown_optimizer_name_raises [OF h1 h2, of 1 0 False "[]" "[]" "1 / 1000" 0]
    by simp
qed

section \<open>Properties of the loss\<close>

lemma mean_list_replicate: "0 < n \<Longrightarrow> mean_list (replicate n c) = c"
  by (simp add: mean_list_def sum_list_replicate)

lemma mean_list_scale: "mean_list (map (\<lambda>x. x * c) r) = c * mean_list r"
  by (simp add: mean_list_def sum_list_mult_const)

lemma mean_list_scale_left: "mean_list (map (\<lambda>x. c * x) r) = c * mean_list r"
  by (simp add: mean_list_def sum_list_const_mult)

lemma sum_list_map_mean:
  "list_all (\<lambda>r. length r = n) D \<Longrightarrow> sum_list (map mean_list D) = sum_list (concat D) / real n"
  by (induction D) (simp_all add: mean_list_def add_divide_distrib)

lemma length_concat_shape:
  "list_all (\<lambda>r. length r = n) D \<Longrightarrow> length (concat D) = length D * n"
  by (induction D) simp_all

text \<open>With rows of one length, the mean of the row means is the mean of all entries.\<close>

lemma mean_of_row_means:
  assumes "has_shape B n D"
  shows "mean_list (map mean_list D) = mean_list (concat D)"
proof -
  have a: "list_all (\<lambda>r. length r = n) D" and b: "length D = B"
    using assms by (simp_all add: has_shape_def)
  show ?thesis
    by (simp add: mean_list_def sum_list_map_mean[OF a] length_concat_shape[OF a] b)
qed

lemma has_shape_tsub:
  "has_shape B n a \<Longrightarrow> has_shape B n b \<Longrightarrow> has_shape B n (tsub a b)"
proof -
  assume a: "has_shape B n a" and b: "has_shape B n b"
  have "length r = n" if "r \<in> set (tsub a b)" for r
  proof -
    from that obtain x y where xy: "(x, y) \<in> set (zip a b)" and r: "r = map2 (\<lambda>x y. x - y) x y"
      by (auto simp: tsub_def)
    have "x \<in> set a" "y \<in> set b" using xy by (auto dest: set_zip_leftD set_zip_rightD)
    then have "length x = n" "length y = n" using a b by (auto simp: has_shape_def list_all_iff)
    then show ?thesis using r by simp
  qed
  moreover have "length (tsub a b) = B" using a b by (simp add: has_shape_def tsub_def)
  ultimately show ?thesis by (simp add: has_shape_def list_all_iff)
qed

lemma has_shape_tpow2: "has_shape B n a \<Longrightarrow> has_shape B n (tpow2 a)"
  unfolding has_shape_def tpow2_def by (auto simp: list_all_iff)

lemma row_mul_const: "length r = n \<Longrightarrow> map2 (\<lambda>x y. x * y) r (replicate n c) = map (\<lambda>x. x * c) r"
  by (simp add: zip_replicate2)

lemma tmul_uniform:
  assumes "has_shape B n D"
  shows "tmul D (replicate B (replicate n c)) = map (map (\<lambda>x. x * c)) D"
proof -
  have "tmul D (replicate B (replicate n c)) = map (\<lambda>r. map2 (\<lambda>x y. x * y) r (replicate n c)) D"
    using assms by (simp add: tmul_def has_shape_def zip_replicate2)
  also have "\<dots> = map (map (\<lambda>x. x * c)) D"
    using assms by (intro map_cong) (auto simp: has_shape_def list_all_iff row_mul_const)
  finally show ?thesis .
qed

text \<open>
  Under a mask that is \<open>c\<close> everywhere the mask means are all \<open>c\<close>, the normalized
  means are all 1, and what is left is the factor \<open>c\<close> of the elementwise product.
\<close>

lemma loss_unweighted_uniform:
  assumes "has_shape B n D" "0 < B" "0 < n" "c \<noteq> 0"
    and D: "D = tpow2 (tsub pred target)"
  shows "loss_unweighted pred target (replicate B (replicate n c)) = c * mean_list (concat D)"
proof -
  have len: "length D = B" using assms by (simp add: has_shape_def)
  have m1: "map mean_list (replicate B (replicate n c)) = replicate B c"
    using assms by (simp add: mean_list_replicate)
  have m2: "map (\<lambda>v. v / mean_list (replicate B c)) (replicate B c) = replicate B 1"
    using assms by (simp add: mean_list_replicate)
  have l1: "map mean_list (map (map (\<lambda>x. x * c)) D) = map (\<lambda>r. c * mean_list r) D"
    by (simp add: mean_list_scale o_def)
  have l2: "map2 (\<lambda>x y. x / y) (map (\<lambda>r. c * mean_list r) D) (replicate B 1) = map (\<lambda>r. c * mean_list r) D"
    using len by (simp add: zip_replicate2 o_def)
  have "loss_unweighted pred target (replicate B (replicate n c))
        = mean_list (map (\<lambda>r. c * mean_list r) D)"
    unfolding loss_unweighted_def Let_def D[symmetric] tmul_uniform[OF assms(1)] m1 m2 l1 l2 ..
  also have "\<dots> = c * mean_list (map mean_list D)"
    using mean_list_scale_left[of c "map mean_list D"] by (simp add: o_def)
  finally show ?thesis using mean_of_row_means[OF assms(1)] by simp
qed

lemmas loss_defs = compute_loss_def prediction_target_def add_l1_penalty_def mse_def
  loss_unweighted_def loss_snr_def tmul_def tsub_def tpow2_def mean_list_def min_gamma_def Let_def

text \<open>
  Claim C3 as stated fails: with the mask 1/2 everywhere, no SNR weights and no L1
  penalty, the loss is 1/2 where the mean squared error is 1.
\<close>

theorem uniform_mask_loss_not_mse:
  "mask half_mask_batch = replicate 1 (replicate 1 (1 / 2))
   \<and> compute_loss None 0 ''epsilon'' half_mask_batch [] = Inr (1 / 2)
   \<and> mse (model_pred half_mask_batch) (noise half_mask_batch) = 1
   \<and> compute_loss None 0 ''epsilon'' half_mask_batch []
       \<noteq> Inr (mse (model_pred half_mask_batch) (noise half_mask_batch))"
  by (simp add: half_mask_batch_def loss_defs)

text \<open>
  Claim C3, amended. For a batch of \<open>B > 0\<close> examples with \<open>n > 0\<close> entries each whose
  mask is \<open>c > 0\<close> everywhere, with \<open>snr_gamma = None\<close> and \<open>l1_penalty = 0\<close>, the loss
  is \<open>c\<close> times the mean squared error of prediction and target: the normalization by
  the mask means changes nothing, the mask itself scales the loss by \<open>c\<close>.
\<close>

theorem uniform_mask_loss_scaled_mse:
  assumes "0 < c" "0 < B" "0 < n"
    and "has_shape B n (model_pred b)" "has_shape B n (noise b)"
    and "mask b = replicate B (replicate n c)"
  shows "compute_loss None 0 ''epsilon'' b lora_values = Inr (c * mse (model_pred b) (noise b))"
proof -
  have sh: "has_shape B n (tpow2 (tsub (model_pred b) (noise b)))"
    using assms by (simp add: has_shape_tsub has_shape_tpow2)
  show ?thesis
    using loss_unweighted_uniform[OF sh assms(2,3), of c "model_pred b" "noise b"] assms(1,6)
    by (simp add: compute_loss_def prediction_target_def add_l1_penalty_def mse_def)
qed

theorem uniform_mask_loss_scaled_mse_witness:
  "(0::real) < 1 \<and> (0::nat) < 2
   \<and> has_shape 2 2 (model_pred ones_mask_batch) \<and> has_shape 2 2 (noise ones_mask_batch)
   \<and> mask ones_mask_batch = replicate 2 (replicate 2 1)
   \<and> compute_loss None 0 ''epsilon'' ones_mask_batch []
       = Inr (1 * mse (model_pred ones_mask_batch) (noise ones_mask_batch))"
proof -
  have h1: "(0::real) < 1" and h2: "(0::nat) < 2" by simp_all
  have h3: "has_shape 2 2 (model_pred ones_mask_batch)"
    and h4: "has_shape 2 2 (noise ones_mask_batch)"
    by (simp_all add: ones_mask_batch_def has_shape_def)
  have h5: "mask ones_mask_batch = replicate 2 (replicate 2 1)"
    by (simp add: ones_mask_batch_def numeral_2_eq_2)
  show ?thesis
    using h1 h2 h3 h4 h5 uniform_mask_loss_scaled_mse [OF h1 h2 h2 h3 h4 h5, of "[]"] by simp
qed

text \<open>
  Claim C5 says that the loss with SNR weights and \<open>snr_gamma\<close> infinite equals the
  loss without SNR weights. On two examples whose masks have means 1 and 1/2 the
  branch with SNR weights gives 1/2 and the branch without gives 3/8: in the first the
  division by the normalized mask means divides by 1.
\<close>

theorem snr_infinite_gamma_differs:
  "compute_loss (Some Infinity) 0 ''epsilon'' uneven_mask_batch [] = Inr (1 / 2)
   \<and> compute_loss None 0 ''epsilon'' uneven_mask_batch [] = Inr (3 / 8)"
  by (simp add: uneven_mask_batch_def loss_defs)

section \<open>Properties of the training loop\<close>

lemma bind_err_Inr: "bind_err m f = Inr y \<Longrightarrow> \<exists>x. m = Inr x \<and> f x = Inr y"
  by (cases m) (simp_all add: bind_err_def)

lemma bind_err_ok: "m = Inr x \<Longrightarrow> bind_err m f = f x"
  by (simp add: bind_err_def)

subsection \<open>get_avg_lr on a Prodigy handle\<close>

lemma bias_correction_ok:
  assumes "prodigy_group_ok g"
  shows "\<exists>bc. bias_correction g = Some bc"
proof -
  from assms obtain k where k: "pg_k g = Some k" "0 \<le> k"
    by (auto simp: prodigy_group_ok_def split: option.splits)
  have ubc: "pg_use_bias_correction g = Some True" and betas: "pg_betas g = Some (9 / 10, 99 / 100)"
    using assms by (simp_all add: prodigy_group_ok_def)
  have "(9 / 10 :: real) ^ nat (k + 1) < 1"
    using k by (simp add: power_less_one_iff)
  then have ne: "1 - (9 / 10 :: real) ^ nat (k + 1) \<noteq> 0" by simp
  show ?thesis using k ubc betas ne by (simp add: bias_correction_def py_pow_def)
qed

lemma avg_lr_loop_ok: "list_all prodigy_group_ok gs \<Longrightarrow> \<exists>r. avg_lr_loop gs acc = Some r"
proof (induction gs arbitrary: acc)
  case Nil
  then show ?case by simp
next
  case (Cons g gs)
  obtain bc where bc: "bias_correction g = Some bc"
    using Cons.prems bias_correction_ok by auto
  obtain d lr where d: "pg_d g = Some d" and lr: "pg_lr g = Some lr"
    using Cons.prems by (auto simp: prodigy_group_ok_def)
  obtain a b where acc: "acc = (a, b)" by (cases acc)
  have rest: "list_all prodigy_group_ok gs" using Cons.prems by simp
  show ?case using Cons.IH[OF rest] by (simp add: acc bc d lr Let_def)
qed

lemma get_avg_lr_ok:
  assumes "prodigy_ok opt"
  shows "\<exists>v. get_avg_lr opt = Inr v"
proof -
  from assms obtain ob gs where ob: "opt = Some ob" "param_groups ob = Some gs" "list_all prodigy_group_ok gs"
    by (auto simp: prodigy_ok_def split: option.splits)
  obtain a b where r: "avg_lr_loop gs (0, 0) = Some (a, b)"
    using avg_lr_loop_ok[OF ob(3), of "(0, 0)"] by (cases "avg_lr_loop gs (0, 0)") auto
  show ?thesis by (simp add: get_avg_lr_def get_avg_lr_try_def ob r)
qed

lemma prodigy_group_ok_step:
  "prodigy_group_ok g \<Longrightarrow>
   prodigy_group_ok (g\<lparr>pg_d := map_option f (pg_k g), pg_k := map_option (\<lambda>k. k + 1) (pg_k g)\<rparr>)"
  by (auto simp: prodigy_group_ok_def split: option.splits)

lemma prodigy_ok_step: "prodigy_ok opt \<Longrightarrow> prodigy_ok (map_option (prodigy_step env) opt)"
  by (auto simp: prodigy_ok_def prodigy_step_def list_all_iff prodigy_group_ok_step split: option.splits)

lemma prodigy_ok_new:
  "prodigy_ok (Some (prodigyopt_Prodigy groups d_coef lr wd (9 / 10, 99 / 100) True growth_rate))"
  by (simp add: prodigy_ok_def prodigyopt_Prodigy_def list_all_iff prodigy_group_ok_def del: not_None_eq)

lemma ti_live_new: "ti_live (Some (torch_AdamW [g] lr wd))"
  by (simp add: ti_live_def torch_AdamW_def)

lemma query_ti_lr_new: "query_ti_lr (Some (torch_AdamW [\<lparr>gs_params = ps, gs_lr = Some x, gs_weight_decay = w\<rparr>] lr wd)) = x"
  by (simp add: query_ti_lr_def first_group_lr_def torch_AdamW_def or_default_def)

subsection \<open>The blocks of the loop body\<close>

lemma pivot_or_decay_frame:
  assumes "pivot_or_decay cfg env E epoch step s = Inr s1"
  shows "global_step s1 = global_step s \<and> last_save_step s1 = last_save_step s
       \<and> checkpoints s1 = checkpoints s \<and> optimizer_prod s1 = optimizer_prod s
       \<and> ti_lrs s1 = ti_lrs s \<and> losses s1 = losses s"
  using assms by (auto simp: pivot_or_decay_def split: if_splits sum.splits)

lemma pivot_hard:
  assumes "cfg_hard_pivot cfg"
  shows "pivot_or_decay cfg env E epoch step s =
     Inr (if E div 2 \<le> int epoch \<and> optimizer s \<noteq> None
          then s\<lparr>optimizer := None, pivots := pivots s + 1\<rparr> else s)"
  using assms by (simp add: pivot_or_decay_def)

lemma set_first_group_lr_live:
  assumes "ti_live opt"
  shows "\<exists>opt'. set_first_group_lr lr opt = Inr opt' \<and> ti_live opt' \<and> query_ti_lr opt' = lr"
proof -
  from assms obtain ob g gs where ob: "opt = Some ob" "param_groups ob = Some (g # gs)"
    by (cases opt; cases "param_groups (the opt)"; cases "the (param_groups (the opt))")
       (auto simp: ti_live_def)
  show ?thesis
    by (rule exI[of _ "Some (ob\<lparr>param_groups := Some (g\<lparr>pg_lr := Some lr\<rparr> # gs)\<rparr>)"])
       (simp add: ob set_first_group_lr_def ti_live_def query_ti_lr_def first_group_lr_def)
qed

lemma decay_soft:
  assumes "\<not> cfg_hard_pivot cfg" "ti_live (optimizer s)" "0 < len_train_dataloader env" "E \<noteq> 0"
  shows "\<exists>opt'. pivot_or_decay cfg env E epoch step s = Inr (s\<lparr>optimizer := opt'\<rparr>) \<and> ti_live opt'
     \<and> query_ti_lr opt' = decayed_lr (cfg_textual_inversion_lr cfg) epoch step (len_train_dataloader env) E"
proof -
  obtain opt' where "set_first_group_lr
      (decayed_lr (cfg_textual_inversion_lr cfg) epoch step (len_train_dataloader env) E) (optimizer s) = Inr opt'"
    "ti_live opt'"
    "query_ti_lr opt' = decayed_lr (cfg_textual_inversion_lr cfg) epoch step (len_train_dataloader env) E"
    using set_first_group_lr_live[OF assms(2)] by blast
  then show ?thesis using assms by (intro exI[of _ opt']) (simp add: pivot_or_decay_def)
qed

lemma compute_loss_ok:
  assumes "step_ok cfg env"
  shows "\<exists>l. compute_loss (cfg_snr_gamma cfg) (cfg_l1_penalty cfg) (prediction_type env) b
            (lora_values_at env g) = Inr l"
proof (cases "cfg_l1_penalty cfg > 0")
  case True
  then have "lora_values_at env g \<noteq> []" using assms by (auto simp: step_ok_def)
  then show ?thesis using assms True
    by (simp add: compute_loss_def prediction_target_def add_l1_penalty_def l1_norm_def step_ok_def)
next
  case False
  then show ?thesis using assms
    by (simp add: compute_loss_def prediction_target_def add_l1_penalty_def step_ok_def)
qed

lemma record_loss_ok:
  assumes "step_ok cfg env"
  shows "\<exists>l. record_loss cfg env epoch step s = Inr (s\<lparr>losses := losses s @ [l]\<rparr>)"
proof -
  obtain l where "compute_loss (cfg_snr_gamma cfg) (cfg_l1_penalty cfg) (prediction_type env)
      (batch_at env epoch step) (lora_values_at env (global_step s)) = Inr l"
    using compute_loss_ok[OF assms] by blast
  then show ?thesis by (intro exI[of _ l]) (simp add: record_loss_def)
qed

lemma accumulation_boundary_ok:
  assumes "step_ok cfg env"
  shows "\<exists>s'. accumulation_boundary cfg env step s = Inr s'
     \<and> global_step s' = global_step s \<and> last_save_step s' = last_save_step s
     \<and> checkpoints s' = checkpoints s \<and> optimizer s' = optimizer s \<and> pivots s' = pivots s
     \<and> ti_lrs s' = ti_lrs s \<and> losses s' = losses s \<and> target_size s' = target_size s
     \<and> (prodigy_ok (optimizer_prod s) \<longrightarrow> prodigy_ok (optimizer_prod s'))"
  using assms by (auto simp: accumulation_boundary_def step_ok_def Let_def prodigy_ok_step)

lemma track_lrs_ok:
  assumes "prodigy_ok (optimizer_prod s)"
  shows "\<exists>v. track_lrs s = Inr (s\<lparr>lora_lrs := lora_lrs s @ [v], ti_lrs := ti_lrs s @ [query_ti_lr (optimizer s)]\<rparr>)"
proof -
  obtain v where "get_avg_lr (optimizer_prod s) = Inr v" using get_avg_lr_ok[OF assms] by blast
  then show ?thesis by (intro exI[of _ v]) (simp add: track_lrs_def)
qed

lemma periodic_checkpoint_ok:
  assumes "step_ok cfg env"
  shows "periodic_checkpoint cfg env s =
     Inr (if int (global_step s) mod cfg_checkpointing_steps cfg = 0
          then s\<lparr>checkpoints := checkpoints s @ [global_step s], last_save_step := global_step s\<rparr>
          else s)"
  using assms by (auto simp: periodic_checkpoint_def step_ok_def)

lemma train_step_ok:
  assumes ok: "step_ok cfg env" and inv: "handles_ok cfg s" and E: "E \<noteq> 0"
  shows "\<exists>s'. train_step cfg env E epoch step s = Inr s' \<and> handles_ok cfg s'
     \<and> global_step s' = Suc (global_step s)
     \<and> checkpoints s' = checkpoints s @
          (if int (global_step s) mod cfg_checkpointing_steps cfg = 0 then [global_step s] else [])
     \<and> last_save_step s' =
          (if int (global_step s) mod cfg_checkpointing_steps cfg = 0 then global_step s else last_save_step s)
     \<and> length (losses s') = Suc (length (losses s))
     \<and> ti_lrs s' = ti_lrs s @ [query_ti_lr (optimizer s')]
     \<and> (cfg_hard_pivot cfg \<longrightarrow> optimizer s' = (if E div 2 \<le> int epoch then None else optimizer s))
     \<and> (\<not> cfg_hard_pivot cfg \<longrightarrow> query_ti_lr (optimizer s') =
           decayed_lr (cfg_textual_inversion_lr cfg) epoch step (len_train_dataloader env) E)
     \<and> target_size s' \<noteq> None"
proof -
  have L: "0 < len_train_dataloader env" using ok by (simp add: step_ok_def)
  obtain s1 where s1: "pivot_or_decay cfg env E epoch step s = Inr s1"
    and live1: "cfg_hard_pivot cfg \<or> ti_live (optimizer s1)"
    and h1: "cfg_hard_pivot cfg \<longrightarrow> optimizer s1 = (if E div 2 \<le> int epoch then None else optimizer s)"
    and d1: "\<not> cfg_hard_pivot cfg \<longrightarrow> query_ti_lr (optimizer s1) =
           decayed_lr (cfg_textual_inversion_lr cfg) epoch step (len_train_dataloader env) E"
  proof (cases "cfg_hard_pivot cfg")
    case True
    show ?thesis
      by (rule that[OF pivot_hard[OF True]]) (use True in auto)
  next
    case False
    then have "ti_live (optimizer s)" using inv by (simp add: handles_ok_def)
    from decay_soft[OF False this L E, of epoch step] obtain opt' where
      "pivot_or_decay cfg env E epoch step s = Inr (s\<lparr>optimizer := opt'\<rparr>)" "ti_live opt'"
      "query_ti_lr opt' = decayed_lr (cfg_textual_inversion_lr cfg) epoch step (len_train_dataloader env) E"
      by blast
    then show ?thesis using False by (intro that[of "s\<lparr>optimizer := opt'\<rparr>"]) auto
  qed
  note f1 = pivot_or_decay_frame[OF s1]
  define s1' where "s1' = set_target_size cfg s1"
  obtain l where s2: "record_loss cfg env epoch step s1' = Inr (s1'\<lparr>losses := losses s1' @ [l]\<rparr>)"
    using record_loss_ok[OF ok] by blast
  define s2 where "s2 = s1'\<lparr>losses := losses s1' @ [l]\<rparr>"
  obtain s3 where s3: "accumulation_boundary cfg env step s2 = Inr s3"
    and f3: "global_step s3 = global_step s2" "last_save_step s3 = last_save_step s2"
      "checkpoints s3 = checkpoints s2" "optimizer s3 = optimizer s2"
      "ti_lrs s3 = ti_lrs s2" "losses s3 = losses s2"
      "prodigy_ok (optimizer_prod s2) \<longrightarrow> prodigy_ok (optimizer_prod s3)"
      "target_size s3 = target_size s2"
    using accumulation_boundary_ok[OF ok, of step s2] by blast
  have p3: "prodigy_ok (optimizer_prod s3)"
    using f3(7) inv f1 by (simp add: s2_def s1'_def set_target_size_def handles_ok_def)
  obtain v where s4: "track_lrs s3 = Inr (s3\<lparr>lora_lrs := lora_lrs s3 @ [v], ti_lrs := ti_lrs s3 @ [query_ti_lr (optimizer s3)]\<rparr>)"
    using track_lrs_ok[OF p3] by blast
  define s4 where "s4 = s3\<lparr>lora_lrs := lora_lrs s3 @ [v], ti_lrs := ti_lrs s3 @ [query_ti_lr (optimizer s3)]\<rparr>"
  note s5 = periodic_checkpoint_ok[OF ok, of s4]
  define s5 where "s5 = (if int (global_step s4) mod cfg_checkpointing_steps cfg = 0
          then s4\<lparr>checkpoints := checkpoints s4 @ [global_step s4], last_save_step := global_step s4\<rparr>
          else s4)"
  have step: "train_step cfg env E epoch step s = Inr (advance s5)"
    using s1 s2 s3 s4 s5 by (simp add: train_step_def bind_err_def s1'_def s2_def s4_def s5_def)
  have "handles_ok cfg (advance s5)"
    using p3 live1 f3 by (simp add: handles_ok_def advance_def s5_def s4_def s2_def s1'_def set_target_size_def)
  moreover have "global_step (advance s5) = Suc (global_step s)"
    using f1 f3 by (simp add: advance_def s5_def s4_def s2_def s1'_def set_target_size_def)
  moreover have "checkpoints (advance s5) = checkpoints s @
          (if int (global_step s) mod cfg_checkpointing_steps cfg = 0 then [global_step s] else [])"
    using f1 f3 by (simp add: advance_def s5_def s4_def s2_def s1'_def set_target_size_def)
  moreover have "last_save_step (advance s5) =
          (if int (global_step s) mod cfg_checkpointing_steps cfg = 0 then global_step s else last_save_step s)"
    using f1 f3 by (simp add: advance_def s5_def s4_def s2_def s1'_def set_target_size_def)
  moreover have "length (losses (advance s5)) = Suc (length (losses s))"
    using f1 f3 by (simp add: advance_def s5_def s4_def s2_def s1'_def set_target_size_def)
  moreover have o5: "optimizer (advance s5) = optimizer s1"
    using f3 by (simp add: advance_def s5_def s4_def s2_def s1'_def set_target_size_def)
  moreover have "ti_lrs (advance s5) = ti_lrs s @ [query_ti_lr (optimizer (advance s5))]"
    using f1 f3 by (simp add: advance_def s5_def s4_def s2_def s1'_def set_target_size_def)
  moreover have "target_size (advance s5) \<noteq> None"
    using f3 by (simp add: advance_def s5_def s4_def s2_def s1'_def set_target_size_def)
  ultimately show ?thesis using step h1 d1 by auto
qed

subsection \<open>The loops\<close>

lemma periodic_steps_Cons:
  "periodic_steps c a (a + Suc n) = (if int a mod c = 0 then [a] else []) @ periodic_steps c (Suc a) (Suc a + n)"
proof -
  have "[a ..< a + Suc n] = a # [Suc a ..< Suc a + n]"
    using upt_conv_Cons[of a "a + Suc n"] by simp
  then show ?thesis unfolding periodic_steps_def by simp
qed

lemma periodic_steps_append:
  "periodic_steps c a (a + m + n) = periodic_steps c a (a + m) @ periodic_steps c (a + m) (a + m + n)"
proof -
  have "[a ..< a + m + n] = [a ..< a + m] @ [a + m ..< a + m + n]"
    using upt_add_eq_append[of a "a + m" n] by simp
  then show ?thesis unfolding periodic_steps_def by simp
qed

lemma periodic_steps_empty [simp]: "periodic_steps c a a = []"
  by (simp add: periodic_steps_def)

lemma last_save_ok_step:
  assumes "last_save_ok s"
    and "checkpoints s' = checkpoints s @ (if P then [global_step s] else [])"
    and "last_save_step s' = (if P then global_step s else last_save_step s)"
  shows "last_save_ok s'"
  using assms by (simp add: last_save_ok_def)

lemma run_steps_ok:
  assumes ok: "step_ok cfg env" and E: "E \<noteq> 0"
  shows "handles_ok cfg s \<Longrightarrow> last_save_ok s \<Longrightarrow>
    \<exists>s'. run_steps cfg env E epoch steps s = Inr s' \<and> handles_ok cfg s' \<and> last_save_ok s'
      \<and> global_step s' = global_step s + length steps
      \<and> checkpoints s' = checkpoints s @
           periodic_steps (cfg_checkpointing_steps cfg) (global_step s) (global_step s + length steps)
      \<and> length (losses s') = length (losses s) + length steps"
proof (induction steps arbitrary: s)
  case Nil
  then show ?case by simp
next
  case (Cons st steps)
  from train_step_ok[OF ok Cons.prems(1) E, of epoch st] obtain s1 where
    s1: "train_step cfg env E epoch st s = Inr s1" and inv1: "handles_ok cfg s1"
    and g1: "global_step s1 = Suc (global_step s)"
    and c1: "checkpoints s1 = checkpoints s @
          (if int (global_step s) mod cfg_checkpointing_steps cfg = 0 then [global_step s] else [])"
    and l1: "last_save_step s1 =
          (if int (global_step s) mod cfg_checkpointing_steps cfg = 0 then global_step s else last_save_step s)"
    and n1: "length (losses s1) = Suc (length (losses s))"
    by blast
  have j1: "last_save_ok s1" by (rule last_save_ok_step[OF Cons.prems(2) c1 l1])
  from Cons.IH[OF inv1 j1] obtain s' where
    r: "run_steps cfg env E epoch steps s1 = Inr s'" and inv: "handles_ok cfg s'" and j: "last_save_ok s'"
    and g: "global_step s' = global_step s1 + length steps"
    and c: "checkpoints s' = checkpoints s1 @
           periodic_steps (cfg_checkpointing_steps cfg) (global_step s1) (global_step s1 + length steps)"
    and n: "length (losses s') = length (losses s1) + length steps"
    by blast
  have "run_steps cfg env E epoch (st # steps) s = Inr s'" using s1 r by simp
  moreover have "global_step s' = global_step s + length (st # steps)" using g g1 by simp
  moreover have "checkpoints s' = checkpoints s @
      periodic_steps (cfg_checkpointing_steps cfg) (global_step s) (global_step s + length (st # steps))"
    using c c1 g1 periodic_steps_Cons[of "cfg_checkpointing_steps cfg" "global_step s" "length steps"]
    by simp
  moreover have "length (losses s') = length (losses s) + length (st # steps)" using n n1 by simp
  ultimately show ?case using inv j by blast
qed

lemma run_epochs_ok:
  assumes ok: "step_ok cfg env" and E: "E \<noteq> 0"
  shows "handles_ok cfg s \<Longrightarrow> last_save_ok s \<Longrightarrow>
    \<exists>s'. run_epochs cfg env E epochs s = Inr s' \<and> handles_ok cfg s' \<and> last_save_ok s'
      \<and> global_step s' = global_step s + length epochs * len_train_dataloader env
      \<and> checkpoints s' = checkpoints s @
           periodic_steps (cfg_checkpointing_steps cfg) (global_step s)
             (global_step s + length epochs * len_train_dataloader env)
      \<and> length (losses s') = length (losses s) + length epochs * len_train_dataloader env"
proof (induction epochs arbitrary: s)
  case Nil
  then show ?case by simp
next
  case (Cons e epochs)
  let ?L = "len_train_dataloader env"
  let ?c = "cfg_checkpointing_steps cfg"
  have len: "length [0 ..< ?L] = ?L" by simp
  from run_steps_ok[OF ok E Cons.prems, of e "[0 ..< ?L]"] obtain s1 where
    s1: "run_steps cfg env E e [0 ..< ?L] s = Inr s1" and inv1: "handles_ok cfg s1"
    and j1: "last_save_ok s1"
    and g1: "global_step s1 = global_step s + ?L"
    and c1: "checkpoints s1 = checkpoints s @ periodic_steps ?c (global_step s) (global_step s + ?L)"
    and n1: "length (losses s1) = length (losses s) + ?L"
    unfolding len by blast
  from Cons.IH[OF inv1 j1] obtain s' where
    r: "run_epochs cfg env E epochs s1 = Inr s'" and inv: "handles_ok cfg s'" and j: "last_save_ok s'"
    and g: "global_step s' = global_step s1 + length epochs * ?L"
    and c: "checkpoints s' = checkpoints s1 @
           periodic_steps ?c (global_step s1) (global_step s1 + length epochs * ?L)"
    and n: "length (losses s') = length (losses s1) + length epochs * ?L"
    by blast
  have "run_epochs cfg env E (e # epochs) s = Inr s'" using s1 r by simp
  moreover have "global_step s' = global_step s + length (e # epochs) * ?L" using g g1 by simp
  moreover have "checkpoints s' = checkpoints s @
      periodic_steps ?c (global_step s) (global_step s + length (e # epochs) * ?L)"
    using c c1 g1 periodic_steps_append[of ?c "global_step s" ?L "length epochs * ?L"]
    by (simp add: add.assoc)
  moreover have "length (losses s') = length (losses s) + length (e # epochs) * ?L" using n n1 by simp
  ultimately show ?case using inv j by blast
qed



subsection \<open>The recorded rates of textual inversion\<close>

lemma query_ti_lr_None [simp]: "query_ti_lr None = 0"
  by (simp add: query_ti_lr_def first_group_lr_def)

lemma run_steps_Cons_Inr:
  "run_steps cfg env E epoch (st # steps) s = Inr s' \<Longrightarrow>
   \<exists>s1. train_step cfg env E epoch st s = Inr s1 \<and> run_steps cfg env E epoch steps s1 = Inr s'"
  by (simp split: sum.splits)

lemma run_epochs_Cons_Inr:
  "run_epochs cfg env E (e # epochs) s = Inr s' \<Longrightarrow>
   \<exists>s1. run_steps cfg env E e [0 ..< len_train_dataloader env] s = Inr s1
      \<and> run_epochs cfg env E epochs s1 = Inr s'"
  by (simp split: sum.splits)

lemma run_steps_hard:
  assumes ok: "step_ok cfg env" and E: "E \<noteq> 0" and hard: "cfg_hard_pivot cfg"
  shows "handles_ok cfg s \<Longrightarrow> run_steps cfg env E epoch steps s = Inr s' \<Longrightarrow>
     E div 2 \<le> int epoch \<or> query_ti_lr (optimizer s) = lr \<Longrightarrow>
     ti_lrs s' = ti_lrs s @ replicate (length steps) (if E div 2 \<le> int epoch then 0 else lr)
     \<and> optimizer s' = (if E div 2 \<le> int epoch \<and> steps \<noteq> [] then None else optimizer s)
     \<and> handles_ok cfg s'"
proof (induction steps arbitrary: s)
  case Nil
  then show ?case by simp
next
  case (Cons st steps)
  from run_steps_Cons_Inr[OF Cons.prems(2)] obtain s1 where
    s1: "train_step cfg env E epoch st s = Inr s1" and r: "run_steps cfg env E epoch steps s1 = Inr s'"
    by blast
  from train_step_ok[OF ok Cons.prems(1) E, of epoch st] s1 hard
  have inv1: "handles_ok cfg s1"
    and t1: "ti_lrs s1 = ti_lrs s @ [query_ti_lr (optimizer s1)]"
    and o1: "optimizer s1 = (if E div 2 \<le> int epoch then None else optimizer s)"
    by auto
  have p1: "E div 2 \<le> int epoch \<or> query_ti_lr (optimizer s1) = lr"
    using Cons.prems(3) o1 by auto
  have q1: "query_ti_lr (optimizer s1) = (if E div 2 \<le> int epoch then 0 else lr)"
    using Cons.prems(3) o1 by auto
  from Cons.IH[OF inv1 r p1] show ?case
    using t1 o1 q1 by (simp add: replicate_app_Cons_same)
qed

lemma run_epochs_hard:
  assumes ok: "step_ok cfg env" and E: "E \<noteq> 0" and hard: "cfg_hard_pivot cfg"
  shows "handles_ok cfg s \<Longrightarrow> run_epochs cfg env E epochs s = Inr s' \<Longrightarrow> sorted epochs \<Longrightarrow>
     (\<forall>e \<in> set epochs. E div 2 \<le> int e) \<or> query_ti_lr (optimizer s) = lr \<Longrightarrow>
     ti_lrs s' = ti_lrs s @
       concat (map (\<lambda>e. replicate (len_train_dataloader env) (if E div 2 \<le> int e then 0 else lr)) epochs)"
proof (induction epochs arbitrary: s)
  case Nil
  then show ?case by simp
next
  case (Cons e epochs)
  let ?L = "len_train_dataloader env"
  have L: "0 < ?L" using ok by (simp add: step_ok_def)
  from run_epochs_Cons_Inr[OF Cons.prems(2)] obtain s1 where
    s1: "run_steps cfg env E e [0 ..< ?L] s = Inr s1" and r: "run_epochs cfg env E epochs s1 = Inr s'"
    by blast
  have p: "E div 2 \<le> int e \<or> query_ti_lr (optimizer s) = lr" using Cons.prems(4) by auto
  from run_steps_hard[OF ok E hard Cons.prems(1) s1 p]
  have t1: "ti_lrs s1 = ti_lrs s @ replicate ?L (if E div 2 \<le> int e then 0 else lr)"
    and o1: "optimizer s1 = (if E div 2 \<le> int e then None else optimizer s)"
    and inv1: "handles_ok cfg s1"
    using L by auto
  have srt: "sorted epochs" and ge: "\<forall>e' \<in> set epochs. e \<le> e'" using Cons.prems(3) by auto
  have p1: "(\<forall>e' \<in> set epochs. E div 2 \<le> int e') \<or> query_ti_lr (optimizer s1) = lr"
  proof (cases "E div 2 \<le> int e")
    case True
    then have "\<forall>e' \<in> set epochs. E div 2 \<le> int e'" using ge by fastforce
    then show ?thesis by simp
  next
    case False
    then show ?thesis using Cons.prems(4) o1 by auto
  qed
  from Cons.IH[OF inv1 r srt p1] show ?case using t1 by simp
qed

lemma run_steps_soft:
  assumes ok: "step_ok cfg env" and E: "E \<noteq> 0" and soft: "\<not> cfg_hard_pivot cfg"
  shows "handles_ok cfg s \<Longrightarrow> run_steps cfg env E epoch steps s = Inr s' \<Longrightarrow>
     ti_lrs s' = ti_lrs s @
       map (\<lambda>st. decayed_lr (cfg_textual_inversion_lr cfg) epoch st (len_train_dataloader env) E) steps
     \<and> handles_ok cfg s'"
proof (induction steps arbitrary: s)
  case Nil
  then show ?case by simp
next
  case (Cons st steps)
  from run_steps_Cons_Inr[OF Cons.prems(2)] obtain s1 where
    s1: "train_step cfg env E epoch st s = Inr s1" and r: "run_steps cfg env E epoch steps s1 = Inr s'"
    by blast
  from train_step_ok[OF ok Cons.prems(1) E, of epoch st] s1 soft
  have inv1: "handles_ok cfg s1"
    and t1: "ti_lrs s1 = ti_lrs s @ [query_ti_lr (optimizer s1)]"
    and q1: "query_ti_lr (optimizer s1) =
       decayed_lr (cfg_textual_inversion_lr cfg) epoch st (len_train_dataloader env) E"
    by auto
  from Cons.IH[OF inv1 r] show ?case using t1 q1 by simp
qed

lemma run_epochs_soft:
  assumes ok: "step_ok cfg env" and E: "E \<noteq> 0" and soft: "\<not> cfg_hard_pivot cfg"
  shows "handles_ok cfg s \<Longrightarrow> run_epochs cfg env E epochs s = Inr s' \<Longrightarrow>
     ti_lrs s' = ti_lrs s @
       concat (map (\<lambda>e. map (\<lambda>st. decayed_lr (cfg_textual_inversion_lr cfg) e st (len_train_dataloader env) E)
                          [0 ..< len_train_dataloader env]) epochs)"
proof (induction epochs arbitrary: s)
  case Nil
  then show ?case by simp
next
  case (Cons e epochs)
  from run_epochs_Cons_Inr[OF Cons.prems(2)] obtain s1 where
    s1: "run_steps cfg env E e [0 ..< len_train_dataloader env] s = Inr s1"
    and r: "run_epochs cfg env E epochs s1 = Inr s'"
    by blast
  from run_steps_soft[OF ok E soft Cons.prems(1) s1]
  have t1: "ti_lrs s1 = ti_lrs s @
       map (\<lambda>st. decayed_lr (cfg_textual_inversion_lr cfg) e st (len_train_dataloader env) E)
         [0 ..< len_train_dataloader env]"
    and inv1: "handles_ok cfg s1" by auto
  from Cons.IH[OF inv1 r] show ?case using t1 by simp
qed

subsection \<open>The whole run\<close>

lemma ceil_pos: "0 < (a::int) \<Longrightarrow> 0 < b \<Longrightarrow> 0 < \<lceil>real_of_int a / real_of_int b\<rceil>"
  by (simp add: zero_less_ceiling)

text \<open>Once the loop body has run, \<open>target_size\<close> is bound.\<close>

lemma run_steps_target_size:
  assumes ok: "step_ok cfg env" and E: "E \<noteq> 0"
  shows "handles_ok cfg s \<Longrightarrow> run_steps cfg env E epoch steps s = Inr s' \<Longrightarrow>
     steps \<noteq> [] \<or> target_size s \<noteq> None \<Longrightarrow> target_size s' \<noteq> None \<and> handles_ok cfg s'"
proof (induction steps arbitrary: s)
  case Nil
  then show ?case by simp
next
  case (Cons st steps)
  from run_steps_Cons_Inr[OF Cons.prems(2)] obtain s1 where
    s1: "train_step cfg env E epoch st s = Inr s1" and r: "run_steps cfg env E epoch steps s1 = Inr s'"
    by blast
  from train_step_ok[OF ok Cons.prems(1) E, of epoch st] s1
  have inv1: "handles_ok cfg s1" and t1: "target_size s1 \<noteq> None" by auto
  from Cons.IH[OF inv1 r] t1 show ?case by simp
qed

lemma run_epochs_target_size:
  assumes ok: "step_ok cfg env" and E: "E \<noteq> 0"
  shows "handles_ok cfg s \<Longrightarrow> run_epochs cfg env E epochs s = Inr s' \<Longrightarrow>
     epochs \<noteq> [] \<or> target_size s \<noteq> None \<Longrightarrow> target_size s' \<noteq> None"
proof (induction epochs arbitrary: s)
  case Nil
  then show ?case by simp
next
  case (Cons e epochs)
  have L: "[0 ..< len_train_dataloader env] \<noteq> []" using ok by (simp add: step_ok_def)
  from run_epochs_Cons_Inr[OF Cons.prems(2)] obtain s1 where
    s1: "run_steps cfg env E e [0 ..< len_train_dataloader env] s = Inr s1"
    and r: "run_epochs cfg env E epochs s1 = Inr s'"
    by blast
  from run_steps_target_size[OF ok E Cons.prems(1) s1] L
  have t1: "target_size s1 \<noteq> None" and inv1: "handles_ok cfg s1" by simp_all
  from Cons.IH[OF inv1 r] t1 show ?case by simp
qed

text \<open>The schedule's constructor keeps the handle live and scales its rate.\<close>

lemma ti_live_lambda: "ti_live (Some ob) \<Longrightarrow> ti_live (Some (lambda_lr_init f ob))"
  by (auto simp: ti_live_def lambda_lr_init_def split: option.splits)

lemma query_ti_lr_lambda:
  "query_ti_lr (Some (lambda_lr_init f
      (torch_AdamW [\<lparr>gs_params = ps, gs_lr = Some x, gs_weight_decay = w\<rparr>] lr wd))) = x * f 0"
  by (simp add: query_ti_lr_def first_group_lr_def torch_AdamW_def or_default_def lambda_lr_init_def)

lemma train_setup_ok:
  assumes ok: "step_ok cfg env"
    and lora: "\<not> cfg_scale_lr_based_on_grad_acc cfg" "cfg_is_lora cfg" "cfg_optimizer_name cfg = ''prodigy''"
    and gas: "0 < cfg_gradient_accumulation_steps cfg"
    and m: "cfg_max_train_steps cfg = Some m"
    and sched: "get_scheduler env (cfg_lr_scheduler_name cfg)
        (cfg_lr_warmup_steps cfg * cfg_gradient_accumulation_steps cfg)
        (m * cfg_gradient_accumulation_steps cfg) = Inr f"
  shows "\<exists>s0. train_setup cfg env = Inr (s0, epochs_of cfg env m) \<and> handles_ok cfg s0 \<and> last_save_ok s0
     \<and> global_step s0 = 0 \<and> checkpoints s0 = [] \<and> losses s0 = [] \<and> ti_lrs s0 = []
     \<and> last_save_step s0 = 0 \<and> target_size s0 = None
     \<and> query_ti_lr (optimizer s0) = cfg_textual_inversion_lr cfg * f 0"
proof -
  let ?L = "len_train_dataloader env"
  let ?g = "cfg_gradient_accumulation_steps cfg"
  have L: "0 < ?L" using ok by (simp add: step_ok_def)
  have U: "0 < \<lceil>real_of_int (int ?L) / real_of_int ?g\<rceil>" using L gas by (intro ceil_pos) simp_all
  have d1: "py_ceil_div (int ?L) ?g = Inr \<lceil>real_of_int (int ?L) / real_of_int ?g\<rceil>"
    using gas by (simp add: py_ceil_div_def)
  have U0: "\<lceil>real_of_int (int ?L) / real_of_int ?g\<rceil> \<noteq> 0" using U by linarith
  have d2: "py_ceil_div m \<lceil>real_of_int (int ?L) / real_of_int ?g\<rceil> = Inr (epochs_of cfg env m)"
    unfolding py_ceil_div_def epochs_of_def using U0 by (simp only: if_False)
  let ?ti = "torch_AdamW [\<lparr>gs_params = text_encoder_parameters env,
              gs_lr = Some (cfg_textual_inversion_lr cfg),
              gs_weight_decay = Some (cfg_textual_inversion_weight_decay cfg)\<rparr>] (1 / 1000)
              (cfg_textual_inversion_weight_decay cfg)"
  let ?pr = "prodigyopt_Prodigy [\<lparr>gs_params = unet_lora_parameters env, gs_lr = Some 1,
              gs_weight_decay = Some (cfg_lora_weight_decay cfg)\<rparr>] (33 / 100) 1 (cfg_lora_weight_decay cfg)
                         (9 / 10, 99 / 100) True (Some (1025 / 1000))"
  have mk: "make_optimizers cfg env = Some (Some ?ti, Some ?pr)"
    using lora by (simp add: make_optimizers_def)
  let ?s0 = "\<lparr>global_step = 0, last_save_step = 0, optimizer = Some (lambda_lr_init f ?ti),
     optimizer_prod = Some ?pr, ti_lrs = [], lora_lrs = [], losses = [], checkpoints = [],
     pivots = 0, ti_updates = 0, target_size = None\<rparr>"
  have "train_setup cfg env = Inr (?s0, epochs_of cfg env m)"
    unfolding train_setup_def using lora m by (simp add: d1 d2 mk sched del: of_int_of_nat_eq)
  moreover have "handles_ok cfg ?s0"
    by (simp add: handles_ok_def prodigy_ok_new ti_live_new ti_live_lambda)
  moreover have "last_save_ok ?s0" by (simp add: last_save_ok_def)
  moreover have "query_ti_lr (optimizer ?s0) = cfg_textual_inversion_lr cfg * f 0"
    by (simp add: query_ti_lr_lambda)
  ultimately show ?thesis by (intro exI[of _ ?s0]) simp
qed

lemma periodic_steps_subset: "g \<in> set (periodic_steps c a b) \<Longrightarrow> a \<le> g \<and> g < b"
  by (simp add: periodic_steps_def)

lemma periodic_steps_from_0: "0 < n \<Longrightarrow> periodic_steps c 0 n \<noteq> []"
proof -
  assume "0 < n"
  then have "[0 ..< n] = 0 # [Suc 0 ..< n]" by (simp add: upt_conv_Cons)
  then show ?thesis by (simp add: periodic_steps_def)
qed

text \<open>The final save after at least one step.\<close>

lemma final_save_ok:
  assumes "last_save_ok s" "checkpoints s = periodic_steps c 0 (global_step s)"
    and "0 < global_step s" "target_size s \<noteq> None"
  shows "\<exists>s'. final_save s = Inr s'
     \<and> checkpoints s' = checkpoints s @
          (if 51 < int (global_step s) - int (last (checkpoints s)) then [global_step s] else [])
     \<and> global_step s' = global_step s \<and> losses s' = losses s \<and> ti_lrs s' = ti_lrs s
     \<and> final_save_step s =
          (if 51 < int (global_step s) - int (last (checkpoints s)) then global_step s
           else last (checkpoints s))"
proof -
  have ne: "checkpoints s \<noteq> []" using assms(2,3) periodic_steps_from_0 by simp
  then have ls: "last_save_step s = last (checkpoints s)" using assms(1) by (simp add: last_save_ok_def)
  have a: "last (checkpoints s) \<in> set (checkpoints s)" using ne by simp
  have b: "global_step s \<notin> set (checkpoints s)"
    using periodic_steps_subset[of "global_step s" c 0 "global_step s"] assms(2) by auto
  obtain ts where ts: "target_size s = Some ts" using assms(4) by auto
  show ?thesis
  proof (cases "51 < int (global_step s) - int (last (checkpoints s))")
    case True
    then show ?thesis using ls b ts
      by (intro exI[of _ "s\<lparr>checkpoints := checkpoints s @ [global_step s]\<rparr>"])
         (simp add: final_save_def final_save_step_def)
  next
    case False
    then show ?thesis using ls a
      by (intro exI[of _ s]) (simp add: final_save_def final_save_step_def)
  qed
qed

text \<open>
  A run that reaches its loop with \<open>max_train_steps\<close> not positive runs no step, and
  its final save raises.
\<close>

lemma train_without_steps:
  assumes ok: "step_ok cfg env"
    and lora: "\<not> cfg_scale_lr_based_on_grad_acc cfg" "cfg_is_lora cfg" "cfg_optimizer_name cfg = ''prodigy''"
    and gas: "0 < cfg_gradient_accumulation_steps cfg"
    and m: "cfg_max_train_steps cfg = Some m" and m0: "m \<le> 0"
    and sched: "get_scheduler env (cfg_lr_scheduler_name cfg)
        (cfg_lr_warmup_steps cfg * cfg_gradient_accumulation_steps cfg)
        (m * cfg_gradient_accumulation_steps cfg) = Inr f"
  shows "train cfg env = Inl UnboundLocalError"
proof -
  from train_setup_ok[OF ok lora gas m sched] obtain s0 where
    s0: "train_setup cfg env = Inr (s0, epochs_of cfg env m)"
    and g0: "global_step s0 = 0" and c0: "checkpoints s0 = []" and l0: "last_save_step s0 = 0"
    and t0: "target_size s0 = None"
    by blast
  have L: "0 < len_train_dataloader env" using ok by (simp add: step_ok_def)
  have U: "0 < \<lceil>real_of_int (int (len_train_dataloader env))
                   / real_of_int (cfg_gradient_accumulation_steps cfg)\<rceil>"
    using L gas by (intro ceil_pos) simp_all
  have "real_of_int m / real_of_int \<lceil>real_of_int (int (len_train_dataloader env))
                   / real_of_int (cfg_gradient_accumulation_steps cfg)\<rceil> \<le> 0"
    using m0 U by (simp add: divide_le_0_iff)
  then have "epochs_of cfg env m \<le> 0" unfolding epochs_of_def by (simp add: ceiling_le_iff)
  then have "nat (epochs_of cfg env m) = 0" by simp
  then have r: "run_epochs cfg env (epochs_of cfg env m) [0 ..< nat (epochs_of cfg env m)] s0 = Inr s0"
    by simp
  have "final_save s0 = Inl UnboundLocalError"
    using g0 c0 l0 t0 by (simp add: final_save_def final_save_step_def)
  then show ?thesis using s0 r by (simp add: train_def)
qed

lemma run_ok_parts:
  assumes "run_ok cfg env" "cfg_max_train_steps cfg = Some m"
  shows "step_ok cfg env" "\<not> cfg_scale_lr_based_on_grad_acc cfg" "cfg_is_lora cfg"
    "cfg_optimizer_name cfg = ''prodigy''" "0 < cfg_gradient_accumulation_steps cfg" "0 < m"
    "\<exists>f. get_scheduler env (cfg_lr_scheduler_name cfg)
        (cfg_lr_warmup_steps cfg * cfg_gradient_accumulation_steps cfg)
        (m * cfg_gradient_accumulation_steps cfg) = Inr f"
  using assms by (auto simp: run_ok_def split: sum.splits)

lemma train_run:
  assumes run: "run_ok cfg env" and m: "cfg_max_train_steps cfg = Some m"
    and sched: "get_scheduler env (cfg_lr_scheduler_name cfg)
        (cfg_lr_warmup_steps cfg * cfg_gradient_accumulation_steps cfg)
        (m * cfg_gradient_accumulation_steps cfg) = Inr f"
  defines "E \<equiv> epochs_of cfg env m"
  defines "N \<equiv> nat E * len_train_dataloader env"
  defines "P \<equiv> periodic_steps (cfg_checkpointing_steps cfg) 0 N"
  shows "\<exists>out s. train cfg env = Inr (out, s) \<and> global_step s = N \<and> length (losses s) = N
     \<and> checkpoints s = P @ (if 51 < int N - int (last P) then [N] else [])
     \<and> out = (if 51 < int N - int (last P) then N else last P)
     \<and> ti_lrs s = expected_ti_lrs cfg env E (cfg_textual_inversion_lr cfg * f 0)
     \<and> 0 < E \<and> 0 < N"
proof -
  note parts = run_ok_parts[OF run m]
  have ok: "step_ok cfg env" by (rule parts(1))
  have L: "0 < len_train_dataloader env" using ok by (simp add: step_ok_def)
  have U: "0 < \<lceil>real_of_int (int (len_train_dataloader env))
                   / real_of_int (cfg_gradient_accumulation_steps cfg)\<rceil>"
    using L parts(5) by (intro ceil_pos) simp_all
  have Epos: "0 < E" unfolding E_def epochs_of_def using parts(6) U by (rule ceil_pos)
  then have E: "E \<noteq> 0" by simp
  have Npos: "0 < N" using Epos L by (simp add: N_def)
  from train_setup_ok[OF ok parts(2,3,4,5) m sched] obtain s0 where
    s0: "train_setup cfg env = Inr (s0, E)" and inv0: "handles_ok cfg s0" and j0: "last_save_ok s0"
    and g0: "global_step s0 = 0" and c0: "checkpoints s0 = []" and l0: "losses s0 = []"
    and t0: "ti_lrs s0 = []"
    and q0: "query_ti_lr (optimizer s0) = cfg_textual_inversion_lr cfg * f 0"
    unfolding E_def by blast
  have len: "length [0 ..< nat E] = nat E" by simp
  from run_epochs_ok[OF ok E inv0 j0, of "[0 ..< nat E]"] obtain s where
    r: "run_epochs cfg env E [0 ..< nat E] s0 = Inr s" and j: "last_save_ok s"
    and g': "global_step s = global_step s0 + nat E * len_train_dataloader env"
    and c': "checkpoints s = checkpoints s0 @ periodic_steps (cfg_checkpointing_steps cfg) (global_step s0)
           (global_step s0 + nat E * len_train_dataloader env)"
    and n': "length (losses s) = length (losses s0) + nat E * len_train_dataloader env"
    unfolding len by blast
  have g: "global_step s = N" and c: "checkpoints s = P" and n: "length (losses s) = N"
    using g' c' n' g0 c0 l0 by (simp_all add: N_def P_def)
  have t: "ti_lrs s = expected_ti_lrs cfg env E (cfg_textual_inversion_lr cfg * f 0)"
  proof (cases "cfg_hard_pivot cfg")
    case True
    have "ti_lrs s = ti_lrs s0 @ concat (map (\<lambda>e. replicate (len_train_dataloader env)
            (if E div 2 \<le> int e then 0 else cfg_textual_inversion_lr cfg * f 0)) [0 ..< nat E])"
      by (rule run_epochs_hard[OF ok E True inv0 r]) (simp_all add: q0)
    then show ?thesis using True t0 by (simp add: expected_ti_lrs_def)
  next
    case False
    from run_epochs_soft[OF ok E False inv0 r] show ?thesis
      using False t0 by (simp add: expected_ti_lrs_def)
  qed
  have ne: "[0 ..< nat E] \<noteq> []" using Epos by simp
  have ts: "target_size s \<noteq> None"
    using run_epochs_target_size[OF ok E inv0 r] ne by simp
  have cp: "checkpoints s = periodic_steps (cfg_checkpointing_steps cfg) 0 (global_step s)"
    using c g by (simp add: P_def)
  have gpos: "0 < global_step s" using g Npos by simp
  from final_save_ok[OF j cp gpos ts] obtain s' where
    f: "final_save s = Inr s'"
    and fc: "checkpoints s' = checkpoints s @
          (if 51 < int (global_step s) - int (last (checkpoints s)) then [global_step s] else [])"
    and ff: "global_step s' = global_step s" "losses s' = losses s" "ti_lrs s' = ti_lrs s"
    and fo: "final_save_step s =
          (if 51 < int (global_step s) - int (last (checkpoints s)) then global_step s
           else last (checkpoints s))"
    by blast
  have tr: "train cfg env = Inr (final_save_step s, s')"
    using s0 r f by (simp add: train_def)
  show ?thesis
    using tr fc ff fo g c n t Epos Npos by simp
qed

subsection \<open>Concrete runs\<close>

lemma sched_constant:
  "get_scheduler (loader_env n) (cfg_lr_scheduler_name (prodigy_cfg m c h)) w T = Inr (\<lambda>current_step. 1)"
  by (simp add: get_scheduler_def prodigy_cfg_def)

lemma sched_warmup:
  "get_scheduler (loader_env n) (cfg_lr_scheduler_name (warmup_cfg m c h)) w T
     = Inr (\<lambda>current_step. if current_step < w then real_of_int current_step / max 1 (real_of_int w) else 1)"
  by (simp add: get_scheduler_def warmup_cfg_def prodigy_cfg_def)

lemma run_ok_prodigy: "0 < n \<Longrightarrow> c \<noteq> 0 \<Longrightarrow> 0 < m \<Longrightarrow> run_ok (prodigy_cfg m c h) (loader_env n)"
  by (simp add: run_ok_def step_ok_def sched_constant) (simp add: prodigy_cfg_def loader_env_def get_scheduler_def)

lemma run_ok_warmup: "0 < n \<Longrightarrow> c \<noteq> 0 \<Longrightarrow> 0 < m \<Longrightarrow> run_ok (warmup_cfg m c h) (loader_env n)"
  by (simp add: run_ok_def step_ok_def sched_warmup)
     (simp add: warmup_cfg_def prodigy_cfg_def loader_env_def get_scheduler_def)

lemma prodigy_cfg_simps [simp]:
  "cfg_max_train_steps (prodigy_cfg m c h) = Some m"
  "cfg_checkpointing_steps (prodigy_cfg m c h) = c"
  "cfg_hard_pivot (prodigy_cfg m c h) = h"
  "cfg_gradient_accumulation_steps (prodigy_cfg m c h) = 1"
  "cfg_textual_inversion_lr (prodigy_cfg m c h) = 1 / 1000"
  "cfg_lr_warmup_steps (prodigy_cfg m c h) = 0"
  "len_train_dataloader (loader_env n) = n"
  by (simp_all add: prodigy_cfg_def loader_env_def)

lemma warmup_cfg_simps [simp]:
  "cfg_max_train_steps (warmup_cfg m c h) = Some m"
  "cfg_checkpointing_steps (warmup_cfg m c h) = c"
  "cfg_hard_pivot (warmup_cfg m c h) = h"
  "cfg_gradient_accumulation_steps (warmup_cfg m c h) = 1"
  "cfg_textual_inversion_lr (warmup_cfg m c h) = 1 / 1000"
  "cfg_lr_warmup_steps (warmup_cfg m c h) = 10"
  by (simp_all add: warmup_cfg_def prodigy_cfg_def)

lemma epochs_of_prodigy: "0 < n \<Longrightarrow> epochs_of (prodigy_cfg m' c h) (loader_env n) m = \<lceil>real_of_int m / real n\<rceil>"
  by (simp add: epochs_of_def)

lemma epochs_of_warmup: "0 < n \<Longrightarrow> epochs_of (warmup_cfg m' c h) (loader_env n) m = \<lceil>real_of_int m / real n\<rceil>"
  by (simp add: epochs_of_def)

lemma epochs_of_10: "epochs_of (prodigy_cfg 1000 500 False) (loader_env 10) 1000 = 100"
  by (simp add: epochs_of_def)

lemma periodic_steps_partial:
  assumes "0 < r" "r \<le> c"
  shows "periodic_steps (int c) (c * k) (c * k + r) = [c * k]"
proof -
  have split: "[c * k ..< c * k + r] = (c * k) # [Suc (c * k) ..< c * k + r]"
    using assms by (simp add: upt_conv_Cons)
  have "int g mod int c \<noteq> 0" if "g \<in> set [Suc (c * k) ..< c * k + r]" for g
  proof -
    from that obtain q where q: "g = c * k + q" "0 < q" "q < c"
      using assms by (auto intro: that[of "g - c * k"])
    have "g mod c = q" using q by simp
    then have "int g mod int c = int q" by (simp add: zmod_int[symmetric])
    then show ?thesis using q by simp
  qed
  then have "filter (\<lambda>g. int g mod int c = 0) [Suc (c * k) ..< c * k + r] = []"
    by (simp add: filter_empty_conv)
  then show ?thesis unfolding periodic_steps_def split by (simp add: zmod_int[symmetric])
qed

lemma periodic_steps_multiples:
  assumes "0 < c"
  shows "periodic_steps (int c) 0 (c * k) = map (\<lambda>i. c * i) [0 ..< k]"
proof (induction k)
  case 0
  then show ?case by (simp add: periodic_steps_def)
next
  case (Suc k)
  have "periodic_steps (int c) 0 (c * Suc k) =
        periodic_steps (int c) 0 (c * k) @ periodic_steps (int c) (c * k) (c * k + c)"
    using periodic_steps_append[of "int c" 0 "c * k" c] by (simp add: add.commute)
  then show ?case using Suc periodic_steps_partial[OF assms order_refl, of k] by simp
qed

lemma periodic_1000: "periodic_steps 500 0 1000 = [0, 500]"
  using periodic_steps_multiples[of 500 2] by (simp add: numeral_2_eq_2 upt_rec)

lemma periodic_520: "periodic_steps 500 0 520 = [0, 500]"
proof -
  have "periodic_steps (int 500) 0 (0 + 500 * 1 + 20)
      = periodic_steps (int 500) 0 (0 + 500 * 1) @ periodic_steps (int 500) (0 + 500 * 1) (0 + 500 * 1 + 20)"
    by (rule periodic_steps_append)
  then show ?thesis
    using periodic_steps_multiples[of 500 1] periodic_steps_partial[of 20 500 1] by simp
qed

lemma scenario_b: "train_checkpoints (prodigy_cfg 1000 500 False) (loader_env 10) = Some [0, 500, 1000]"
proof -
  have run: "run_ok (prodigy_cfg 1000 500 False) (loader_env 10)" by (simp add: run_ok_prodigy)
  from train_run[OF run _ sched_constant, of 1000] obtain out s where
    "train (prodigy_cfg 1000 500 False) (loader_env 10) = Inr (out, s)"
    "checkpoints s = [0, 500, 1000]"
    by (auto simp: epochs_of_10 periodic_1000)
  then show ?thesis by (simp add: train_checkpoints_def)
qed

subsection \<open>Checkpoints\<close>

text \<open>
  Claim C1, amended. A run that reaches its end performs \<open>N = num_train_epochs *
  len(train_dataloader)\<close> steps, at least one. It writes a periodic checkpoint at every
  global step \<open>g < N\<close>, counted from 0, with \<open>g % checkpointing_steps == 0\<close>, step 0
  included, and after the loop one more at step \<open>N\<close> exactly when the last periodic
  checkpoint is more than 51 steps behind \<open>N\<close>.
\<close>

theorem checkpoints_of_run:
  assumes "run_ok cfg env" "cfg_max_train_steps cfg = Some m"
  shows "train_checkpoints cfg env =
     Some (let N = nat (epochs_of cfg env m) * len_train_dataloader env;
               P = periodic_steps (cfg_checkpointing_steps cfg) 0 N
           in P @ (if 51 < int N - int (last P) then [N] else []))"
proof -
  from run_ok_parts(7)[OF assms] obtain f where
    f: "get_scheduler env (cfg_lr_scheduler_name cfg)
        (cfg_lr_warmup_steps cfg * cfg_gradient_accumulation_steps cfg)
        (m * cfg_gradient_accumulation_steps cfg) = Inr f"
    by blast
  from train_run[OF assms f] obtain out s where
    "train cfg env = Inr (out, s)"
    "checkpoints s = periodic_steps (cfg_checkpointing_steps cfg) 0 (nat (epochs_of cfg env m) * len_train_dataloader env)
       @ (if 51 < int (nat (epochs_of cfg env m) * len_train_dataloader env)
                    - int (last (periodic_steps (cfg_checkpointing_steps cfg) 0 (nat (epochs_of cfg env m) * len_train_dataloader env)))
          then [nat (epochs_of cfg env m) * len_train_dataloader env] else [])"
    by blast
  then show ?thesis by (simp add: train_checkpoints_def Let_def)
qed

theorem checkpoints_of_run_witness:
  "run_ok (prodigy_cfg 520 500 False) (loader_env 10)
   \<and> cfg_max_train_steps (prodigy_cfg 520 500 False) = Some 520
   \<and> train_checkpoints (prodigy_cfg 520 500 False) (loader_env 10) = Some [0, 500]"
proof -
  have h1: "run_ok (prodigy_cfg 520 500 False) (loader_env 10)" by (simp add: run_ok_prodigy)
  have h2: "cfg_max_train_steps (prodigy_cfg 520 500 False) = Some 520" by simp
  have e: "epochs_of (prodigy_cfg 520 500 False) (loader_env 10) 520 = 52"
    by (simp add: epochs_of_prodigy)
  show ?thesis
    using h1 h2 checkpoints_of_run [OF h1 h2] by (simp add: e periodic_520)
qed

text \<open>
  Claim C1 as stated fails: with \<open>checkpointing_steps = 500\<close> and \<open>max_train_steps =
  1000\<close> (10 batches per epoch, 100 epochs) the run leaves three checkpoints, at
  steps 0, 500 and 1000.
\<close>

theorem scenario_b_three_checkpoints:
  "train_checkpoints (prodigy_cfg 1000 500 False) (loader_env 10) = Some [0, 500, 1000]
   \<and> train_checkpoints (prodigy_cfg 1000 500 False) (loader_env 10) \<noteq> Some [500, 1000]"
  using scenario_b by simp

subsection \<open>The global step\<close>

lemma epochs_bound:
  fixes m gas :: int and L :: nat
  assumes L: "0 < L" and g: "0 < gas"
  defines "U \<equiv> \<lceil>real_of_int (int L) / real_of_int gas\<rceil>"
  defines "E \<equiv> \<lceil>real_of_int m / real_of_int U\<rceil>"
  shows "m \<le> int (nat E * L)"
proof -
  have U0: "0 < U" unfolding U_def using L g by (intro ceil_pos) simp_all
  have "real_of_int (int L) / real_of_int gas \<le> real_of_int (int L)"
    using L g by (simp add: divide_le_eq mult_le_cancel_left1)
  then have UL: "U \<le> int L" unfolding U_def by (simp add: ceiling_le_iff)
  have "real_of_int m / real_of_int U \<le> real_of_int E" unfolding E_def by simp
  then have "real_of_int m \<le> real_of_int E * real_of_int U" using U0 by (simp add: divide_le_eq)
  then have mEU: "m \<le> E * U" by (metis of_int_le_iff of_int_mult)
  show ?thesis
  proof (cases "0 \<le> E")
    case True
    then have "E * U \<le> E * int L" using UL by (simp add: mult_left_mono)
    then show ?thesis using mEU True by simp
  next
    case False
    then have "E * U \<le> 0" using U0 by (simp add: mult_le_0_iff)
    then show ?thesis using mEU False by simp
  qed
qed

lemma epochs_exact:
  assumes L: "0 < L" and m: "0 \<le> m" and d: "int L dvd m"
  shows "int (nat \<lceil>real_of_int m / real_of_int \<lceil>real_of_int (int L) / real_of_int 1\<rceil>\<rceil> * L) = m"
proof -
  from d obtain k where k: "m = int L * k" by (auto simp: dvd_def)
  have k0: "0 \<le> k" using m L k by (simp add: zero_le_mult_iff)
  have "real_of_int m / real_of_int (int L) = real_of_int k" using L k by simp
  then have "\<lceil>real_of_int m / real_of_int (int L)\<rceil> = k" by simp
  then show ?thesis using k k0 by (simp del: of_int_of_nat_eq)
qed

text \<open>
  Claim C2, amended. In a run that reaches its end, the loop visits every pair (epoch,
  step) with \<open>epoch < num_train_epochs\<close> and \<open>step < len(train_dataloader)\<close>, where
  \<open>num_train_epochs = ceil(max_train_steps / ceil(len(train_dataloader) /
  gradient_accumulation_steps))\<close>, and ends when these are exhausted: the global step
  ends at \<open>num_train_epochs * len(train_dataloader)\<close>, which is at least
  \<open>max_train_steps\<close>, and equal to it when there is no gradient accumulation and the
  number of batches divides \<open>max_train_steps\<close>.
\<close>

theorem global_step_of_run:
  assumes "run_ok cfg env" "cfg_max_train_steps cfg = Some m"
  shows "train_global_step cfg env = Some (nat (epochs_of cfg env m) * len_train_dataloader env)
     \<and> m \<le> int (nat (epochs_of cfg env m) * len_train_dataloader env)
     \<and> (cfg_gradient_accumulation_steps cfg = 1 \<and> int (len_train_dataloader env) dvd m
          \<longrightarrow> int (nat (epochs_of cfg env m) * len_train_dataloader env) = m)"
proof -
  note parts = run_ok_parts[OF assms]
  have L: "0 < len_train_dataloader env" using parts(1) by (simp add: step_ok_def)
  have g: "0 < cfg_gradient_accumulation_steps cfg" by (rule parts(5))
  have m0: "0 \<le> m" using parts(6) by simp
  from parts(7) obtain f where
    f: "get_scheduler env (cfg_lr_scheduler_name cfg)
        (cfg_lr_warmup_steps cfg * cfg_gradient_accumulation_steps cfg)
        (m * cfg_gradient_accumulation_steps cfg) = Inr f"
    by blast
  from train_run[OF assms f] obtain out s where
    "train cfg env = Inr (out, s)" "global_step s = nat (epochs_of cfg env m) * len_train_dataloader env"
    by blast
  then have a: "train_global_step cfg env = Some (nat (epochs_of cfg env m) * len_train_dataloader env)"
    by (simp add: train_global_step_def)
  have b: "m \<le> int (nat (epochs_of cfg env m) * len_train_dataloader env)"
    unfolding epochs_of_def by (rule epochs_bound[OF L g])
  have c: "int (nat (epochs_of cfg env m) * len_train_dataloader env) = m"
    if "cfg_gradient_accumulation_steps cfg = 1" "int (len_train_dataloader env) dvd m"
    unfolding epochs_of_def that(1) by (rule epochs_exact[OF L m0 that(2)])
  show ?thesis using a b c by blast
qed

theorem global_step_of_run_witness:
  "run_ok (prodigy_cfg 1000 500 False) (loader_env 10)
   \<and> cfg_max_train_steps (prodigy_cfg 1000 500 False) = Some 1000
   \<and> train_global_step (prodigy_cfg 1000 500 False) (loader_env 10) = Some 1000"
proof -
  have h1: "run_ok (prodigy_cfg 1000 500 False) (loader_env 10)" by (simp add: run_ok_prodigy)
  have h2: "cfg_max_train_steps (prodigy_cfg 1000 500 False) = Some 1000" by simp
  show ?thesis
    using h1 h2 global_step_of_run [OF h1 h2] by (simp add: epochs_of_10)
qed

text \<open>
  Claim C2 as stated fails: with \<open>max_train_steps = 10\<close> and 3 batches per epoch the
  loop runs 4 epochs and the global step ends at 12.
\<close>

theorem global_step_exceeds_max_train_steps:
  "cfg_max_train_steps (prodigy_cfg 10 500 False) = Some 10
   \<and> train_global_step (prodigy_cfg 10 500 False) (loader_env 3) = Some 12"
proof -
  have run: "run_ok (prodigy_cfg 10 500 False) (loader_env 3)" by (simp add: run_ok_prodigy)
  have e: "epochs_of (prodigy_cfg 10 500 False) (loader_env 3) 10 = 4"
    by (simp add: epochs_of_prodigy)
  from train_run[OF run _ sched_constant, of 10] obtain out s where
    "train (prodigy_cfg 10 500 False) (loader_env 3) = Inr (out, s)" "global_step s = 12"
    by (auto simp: e)
  then show ?thesis by (simp add: train_global_step_def)
qed

subsection \<open>The pivot\<close>

lemma later_blocks_keep_handle:
  "record_loss cfg env epoch step s = Inr s' \<Longrightarrow>
     optimizer s' = optimizer s \<and> pivots s' = pivots s \<and> ti_lrs s' = ti_lrs s"
  "accumulation_boundary cfg env step s = Inr s' \<Longrightarrow>
     optimizer s' = optimizer s \<and> pivots s' = pivots s \<and> ti_lrs s' = ti_lrs s"
  "track_lrs s = Inr s' \<Longrightarrow>
     optimizer s' = optimizer s \<and> pivots s' = pivots s \<and> ti_lrs s' = ti_lrs s @ [query_ti_lr (optimizer s)]"
  "periodic_checkpoint cfg env s = Inr s' \<Longrightarrow>
     optimizer s' = optimizer s \<and> pivots s' = pivots s \<and> ti_lrs s' = ti_lrs s"
  by (auto simp: record_loss_def accumulation_boundary_def track_lrs_def periodic_checkpoint_def Let_def
      split: sum.splits if_splits)

lemma train_step_after_pivot:
  assumes "train_step cfg env E epoch step s = Inr s'"
    and "pivot_or_decay cfg env E epoch step s = Inr s1"
  shows "optimizer s' = optimizer s1 \<and> pivots s' = pivots s1
       \<and> ti_lrs s' = ti_lrs s1 @ [query_ti_lr (optimizer s1)]"
proof -
  from assms have "bind_err (record_loss cfg env epoch step (set_target_size cfg s1)) (\<lambda>s2.
     bind_err (accumulation_boundary cfg env step s2) (\<lambda>s3.
     bind_err (track_lrs s3) (\<lambda>s4.
     bind_err (periodic_checkpoint cfg env s4) (\<lambda>s5. Inr (advance s5))))) = Inr s'"
    by (simp add: train_step_def bind_err_def)
  then obtain s2 s3 s4 s5 where
    "record_loss cfg env epoch step (set_target_size cfg s1) = Inr s2"
    "accumulation_boundary cfg env step s2 = Inr s3"
    "track_lrs s3 = Inr s4" "periodic_checkpoint cfg env s4 = Inr s5" "s' = advance s5"
    by (auto dest!: bind_err_Inr)
  then show ?thesis
    using later_blocks_keep_handle(1)[of cfg env epoch step "set_target_size cfg s1" s2]
      later_blocks_keep_handle(2)[of cfg env step s2 s3]
      later_blocks_keep_handle(3)[of s3 s4]
      later_blocks_keep_handle(4)[of cfg env s4 s5]
    by (simp add: advance_def set_target_size_def)
qed

text \<open>
  Claim C6. With \<open>hard_pivot\<close>, at an epoch from \<open>num_train_epochs // 2\<close> on, the
  pivot check does not raise, leaves the handle \<open>None\<close> (firing only if it was live),
  and the rate query reads 0; run again on the result at a later step it changes
  nothing. A whole later step from a state whose handle is \<open>None\<close>, when it returns,
  has not fired the pivot and has recorded 0; and a step whose other blocks cannot
  raise returns.
\<close>

theorem pivot_idempotent:
  assumes hard: "cfg_hard_pivot cfg" and e1: "E div 2 \<le> int epoch" and e2: "E div 2 \<le> int epoch'"
  shows "(\<exists>s1. pivot_or_decay cfg env E epoch step s = Inr s1 \<and> optimizer s1 = None
            \<and> pivots s1 = (if optimizer s = None then pivots s else pivots s + 1)
            \<and> query_ti_lr (optimizer s1) = 0
            \<and> pivot_or_decay cfg env E epoch' step' s1 = Inr s1)
       \<and> (\<forall>s2 s3. optimizer s2 = None \<and> train_step cfg env E epoch' step' s2 = Inr s3
             \<longrightarrow> optimizer s3 = None \<and> pivots s3 = pivots s2 \<and> ti_lrs s3 = ti_lrs s2 @ [0])
       \<and> (step_ok cfg env \<and> prodigy_ok (optimizer_prod s) \<and> E \<noteq> 0
             \<longrightarrow> (\<exists>s'. train_step cfg env E epoch step s = Inr s' \<and> optimizer s' = None
                        \<and> ti_lrs s' = ti_lrs s @ [0]))"
proof -
  let ?s1 = "if optimizer s \<noteq> None then s\<lparr>optimizer := None, pivots := pivots s + 1\<rparr> else s"
  have p: "pivot_or_decay cfg env E epoch step s = Inr ?s1"
    using pivot_hard[OF hard, of env E epoch step s] e1 by simp
  have o: "optimizer ?s1 = None" by simp
  have "pivot_or_decay cfg env E epoch' step' ?s1 = Inr ?s1"
    using pivot_hard[OF hard, of env E epoch' step' ?s1] o by simp
  then have first: "\<exists>s1. pivot_or_decay cfg env E epoch step s = Inr s1 \<and> optimizer s1 = None
            \<and> pivots s1 = (if optimizer s = None then pivots s else pivots s + 1)
            \<and> query_ti_lr (optimizer s1) = 0
            \<and> pivot_or_decay cfg env E epoch' step' s1 = Inr s1"
    using p by (intro exI[of _ ?s1]) simp
  have second: "optimizer s3 = None \<and> pivots s3 = pivots s2 \<and> ti_lrs s3 = ti_lrs s2 @ [0]"
    if a: "optimizer s2 = None \<and> train_step cfg env E epoch' step' s2 = Inr s3" for s2 s3
  proof -
    have "pivot_or_decay cfg env E epoch' step' s2 = Inr s2"
      using pivot_hard[OF hard, of env E epoch' step' s2] a by simp
    from train_step_after_pivot[OF _ this, of s3] a show ?thesis by simp
  qed
  have third: "\<exists>s'. train_step cfg env E epoch step s = Inr s' \<and> optimizer s' = None
       \<and> ti_lrs s' = ti_lrs s @ [0]"
    if a: "step_ok cfg env \<and> prodigy_ok (optimizer_prod s) \<and> E \<noteq> 0"
  proof -
    have inv: "handles_ok cfg s" using a hard by (simp add: handles_ok_def)
    from train_step_ok[of cfg env s E epoch step] a inv hard e1 show ?thesis by auto
  qed
  show ?thesis using first second third by blast
qed

theorem pivot_idempotent_witness:
  "cfg_hard_pivot (prodigy_cfg 20 500 True) \<and> (10::int) div 2 \<le> int 5 \<and> (10::int) div 2 \<le> int 6
   \<and> pivot_or_decay (prodigy_cfg 20 500 True) (loader_env 2) 10 5 0 live_state
       = Inr (live_state\<lparr>optimizer := None, pivots := 1\<rparr>)
   \<and> pivot_or_decay (prodigy_cfg 20 500 True) (loader_env 2) 10 6 0 (live_state\<lparr>optimizer := None, pivots := 1\<rparr>)
       = Inr (live_state\<lparr>optimizer := None, pivots := 1\<rparr>)
   \<and> query_ti_lr (optimizer (live_state\<lparr>optimizer := None, pivots := 1\<rparr>)) = 0"
proof -
  have h1: "cfg_hard_pivot (prodigy_cfg 20 500 True)" by simp
  have h2: "(10::int) div 2 \<le> int 5" and h3: "(10::int) div 2 \<le> int 6" by simp_all
  have p: "pivot_or_decay (prodigy_cfg 20 500 True) (loader_env 2) 10 5 0 live_state
       = Inr (live_state\<lparr>optimizer := None, pivots := 1\<rparr>)"
    by (simp add: pivot_or_decay_def live_state_def)
  from pivot_idempotent [OF h1 h2 h3, of "loader_env 2" 0 live_state 0]
  obtain s1 where "pivot_or_decay (prodigy_cfg 20 500 True) (loader_env 2) 10 5 0 live_state = Inr s1"
    "query_ti_lr (optimizer s1) = 0"
    "pivot_or_decay (prodigy_cfg 20 500 True) (loader_env 2) 10 6 0 s1 = Inr s1"
    by auto
  then show ?thesis using h1 h2 h3 p by simp
qed

text \<open>
  Claim C9 as stated fails: the schedule built before the loop multiplies the rate of
  the textual-inversion optimizer by its factor at step 0, and with \<open>hard_pivot\<close>
  nothing in the loop writes the rate again. With the schedule
  \<open>constant_with_warmup\<close> and 10 warm-up steps that factor is 0: in a run of 4 epochs
  of 2 batches with \<open>textual_inversion_lr = 1/1000\<close> the recorded rate is 0 at every
  step, also before the pivot at epoch 2.
\<close>

theorem hard_pivot_warmup_records_zero:
  "cfg_hard_pivot (warmup_cfg 8 500 True)
   \<and> cfg_textual_inversion_lr (warmup_cfg 8 500 True) = 1 / 1000
   \<and> epochs_of (warmup_cfg 8 500 True) (loader_env 2) 8 = 4
   \<and> train_ti_lrs (warmup_cfg 8 500 True) (loader_env 2) = Some [0, 0, 0, 0, 0, 0, 0, 0]"
proof -
  have run: "run_ok (warmup_cfg 8 500 True) (loader_env 2)" by (simp add: run_ok_warmup)
  have e: "epochs_of (warmup_cfg 8 500 True) (loader_env 2) 8 = 4"
    by (simp add: epochs_of_warmup)
  have u: "[0 ..< 4] = [0, 1, 2, Suc 2]" by (simp add: upt_rec)
  have r: "replicate 2 x = [x, x]" for x :: real by (simp add: numeral_2_eq_2)
  from train_run[OF run _ sched_warmup, of 8] obtain out s where
    "train (warmup_cfg 8 500 True) (loader_env 2) = Inr (out, s)"
    "ti_lrs s = [0, 0, 0, 0, 0, 0, 0, 0]"
    by (auto simp: e u r expected_ti_lrs_def)
  then show ?thesis using e by (simp add: train_ti_lrs_def)
qed

text \<open>
  Claim C9, amended. In a run with \<open>hard_pivot\<close> that reaches its end, the rate
  recorded for textual inversion at every step of every epoch before
  \<open>num_train_epochs // 2\<close> is the rate the optimizer has when the loop starts,
  \<open>textual_inversion_lr * lr_lambda(0)\<close> for the schedule \<open>lr_lambda\<close> that
  \<open>get_scheduler\<close> built, and 0 from that epoch on: the decay is never applied. The
  factor \<open>lr_lambda(0)\<close> is 1 for the schedule \<open>constant\<close>, so that the recorded rate
  is the base rate, and 0 for \<open>constant_with_warmup\<close> with a positive number of
  warm-up steps. Before epoch \<open>num_train_epochs // 2\<close> the block that holds the pivot
  and the decay changes nothing.
\<close>

theorem hard_pivot_keeps_initial_lr:
  assumes "run_ok cfg env" "cfg_hard_pivot cfg" "cfg_max_train_steps cfg = Some m"
  shows "(\<exists>lr_lambda.
        get_scheduler env (cfg_lr_scheduler_name cfg)
          (cfg_lr_warmup_steps cfg * cfg_gradient_accumulation_steps cfg)
          (m * cfg_gradient_accumulation_steps cfg) = Inr lr_lambda
      \<and> train_ti_lrs cfg env =
          Some (concat (map (\<lambda>e. replicate (len_train_dataloader env)
                  (if epochs_of cfg env m div 2 \<le> int e then 0
                   else cfg_textual_inversion_lr cfg * lr_lambda 0))
                [0 ..< nat (epochs_of cfg env m)]))
      \<and> (cfg_lr_scheduler_name cfg = ''constant'' \<longrightarrow> lr_lambda 0 = 1)
      \<and> (cfg_lr_scheduler_name cfg = ''constant_with_warmup''
           \<and> 0 < cfg_lr_warmup_steps cfg * cfg_gradient_accumulation_steps cfg
          \<longrightarrow> lr_lambda 0 = 0))
     \<and> (\<forall>E epoch step s. int epoch < E div 2 \<longrightarrow> pivot_or_decay cfg env E epoch step s = Inr s)"
proof -
  from run_ok_parts(7)[OF assms(1,3)] obtain f where
    f: "get_scheduler env (cfg_lr_scheduler_name cfg)
        (cfg_lr_warmup_steps cfg * cfg_gradient_accumulation_steps cfg)
        (m * cfg_gradient_accumulation_steps cfg) = Inr f"
    by blast
  from train_run[OF assms(1,3) f] obtain out s where
    "train cfg env = Inr (out, s)"
    "ti_lrs s = expected_ti_lrs cfg env (epochs_of cfg env m) (cfg_textual_inversion_lr cfg * f 0)"
    by blast
  then have a: "train_ti_lrs cfg env =
       Some (concat (map (\<lambda>e. replicate (len_train_dataloader env)
               (if epochs_of cfg env m div 2 \<le> int e then 0 else cfg_textual_inversion_lr cfg * f 0))
             [0 ..< nat (epochs_of cfg env m)]))"
    using assms(2) by (simp add: train_ti_lrs_def expected_ti_lrs_def)
  have b: "f 0 = 1" if "cfg_lr_scheduler_name cfg = ''constant''"
    using f that by (auto simp: get_scheduler_def)
  have c: "f 0 = 0" if "cfg_lr_scheduler_name cfg = ''constant_with_warmup''"
      "0 < cfg_lr_warmup_steps cfg * cfg_gradient_accumulation_steps cfg"
    using f that by (auto simp: get_scheduler_def)
  have d: "pivot_or_decay cfg env E epoch step s = Inr s" if "int epoch < E div 2" for E epoch step s
    using pivot_hard[OF assms(2), of env E epoch step s] that by simp
  have "\<exists>lr_lambda.
        get_scheduler env (cfg_lr_scheduler_name cfg)
          (cfg_lr_warmup_steps cfg * cfg_gradient_accumulation_steps cfg)
          (m * cfg_gradient_accumulation_steps cfg) = Inr lr_lambda
      \<and> train_ti_lrs cfg env =
          Some (concat (map (\<lambda>e. replicate (len_train_dataloader env)
                  (if epochs_of cfg env m div 2 \<le> int e then 0
                   else cfg_textual_inversion_lr cfg * lr_lambda 0))
                [0 ..< nat (epochs_of cfg env m)]))
      \<and> (cfg_lr_scheduler_name cfg = ''constant'' \<longrightarrow> lr_lambda 0 = 1)
      \<and> (cfg_lr_scheduler_name cfg = ''constant_with_warmup''
           \<and> 0 < cfg_lr_warmup_steps cfg * cfg_gradient_accumulation_steps cfg
          \<longrightarrow> lr_lambda 0 = 0)"
    using f a b c by (intro exI[of _ f]) simp
  then show ?thesis using d by blast
qed

theorem hard_pivot_keeps_initial_lr_witness:
  "run_ok (prodigy_cfg 8 500 True) (loader_env 2) \<and> cfg_hard_pivot (prodigy_cfg 8 500 True)
   \<and> cfg_max_train_steps (prodigy_cfg 8 500 True) = Some 8
   \<and> cfg_lr_scheduler_name (prodigy_cfg 8 500 True) = ''constant''
   \<and> train_ti_lrs (prodigy_cfg 8 500 True) (loader_env 2)
       = Some [1 / 1000, 1 / 1000, 1 / 1000, 1 / 1000, 0, 0, 0, 0]"
proof -
  have h1: "run_ok (prodigy_cfg 8 500 True) (loader_env 2)" by (simp add: run_ok_prodigy)
  have h2: "cfg_hard_pivot (prodigy_cfg 8 500 True)" by simp
  have h3: "cfg_max_train_steps (prodigy_cfg 8 500 True) = Some 8" by simp
  have h4: "cfg_lr_scheduler_name (prodigy_cfg 8 500 True) = ''constant''"
    by (simp add: prodigy_cfg_def)
  have e: "epochs_of (prodigy_cfg 8 500 True) (loader_env 2) 8 = 4"
    by (simp add: epochs_of_prodigy)
  have u: "[0 ..< 4] = [0, 1, 2, Suc 2]" by (simp add: upt_rec)
  have r: "replicate 2 x = [x, x]" for x :: real by (simp add: numeral_2_eq_2)
  have "\<exists>lr_lambda.
        get_scheduler (loader_env 2) (cfg_lr_scheduler_name (prodigy_cfg 8 500 True))
          (cfg_lr_warmup_steps (prodigy_cfg 8 500 True) * cfg_gradient_accumulation_steps (prodigy_cfg 8 500 True))
          (8 * cfg_gradient_accumulation_steps (prodigy_cfg 8 500 True)) = Inr lr_lambda
      \<and> train_ti_lrs (prodigy_cfg 8 500 True) (loader_env 2) =
          Some (concat (map (\<lambda>e. replicate (len_train_dataloader (loader_env 2))
                  (if epochs_of (prodigy_cfg 8 500 True) (loader_env 2) 8 div 2 \<le> int e then 0
                   else cfg_textual_inversion_lr (prodigy_cfg 8 500 True) * lr_lambda 0))
                [0 ..< nat (epochs_of (prodigy_cfg 8 500 True) (loader_env 2) 8)]))
      \<and> (cfg_lr_scheduler_name (prodigy_cfg 8 500 True) = ''constant'' \<longrightarrow> lr_lambda 0 = 1)
      \<and> (cfg_lr_scheduler_name (prodigy_cfg 8 500 True) = ''constant_with_warmup''
           \<and> 0 < cfg_lr_warmup_steps (prodigy_cfg 8 500 True) * cfg_gradient_accumulation_steps (prodigy_cfg 8 500 True)
          \<longrightarrow> lr_lambda 0 = 0)"
    using hard_pivot_keeps_initial_lr [OF h1 h2 h3] by (rule conjunct1)
  then obtain lr_lambda where
    t: "train_ti_lrs (prodigy_cfg 8 500 True) (loader_env 2) =
          Some (concat (map (\<lambda>e. replicate (len_train_dataloader (loader_env 2))
                  (if epochs_of (prodigy_cfg 8 500 True) (loader_env 2) 8 div 2 \<le> int e then 0
                   else cfg_textual_inversion_lr (prodigy_cfg 8 500 True) * lr_lambda 0))
                [0 ..< nat (epochs_of (prodigy_cfg 8 500 True) (loader_env 2) 8)]))"
    and l: "cfg_lr_scheduler_name (prodigy_cfg 8 500 True) = ''constant'' \<longrightarrow> lr_lambda 0 = 1"
    by (elim exE conjE)
  have "lr_lambda 0 = 1" using l h4 by blast
  then have "train_ti_lrs (prodigy_cfg 8 500 True) (loader_env 2)
       = Some [1 / 1000, 1 / 1000, 1 / 1000, 1 / 1000, 0, 0, 0, 0]"
    using t by (simp add: e u r)
  then show ?thesis using h1 h2 h3 h4 by simp
qed

subsection \<open>The learning-rate schedule\<close>

text \<open>
  Claim C4. With \<open>f = (epoch + step / steps_per_epoch) / total_epochs\<close>, the rate that
  the schedule computes is \<open>base_lr * (1 - f)^2\<close>; inside the loop \<open>f\<close> lies in [0, 1);
  for a non-negative base rate the rate does not increase when \<open>f\<close> grows up to 1; at
  \<open>f = 1\<close>, the start of epoch \<open>total_epochs\<close>, it is 0; and without \<open>hard_pivot\<close> the
  loop body stores this rate in the first parameter group of a live optimizer.
\<close>

theorem ti_lr_quadratic_decay:
  assumes "0 < L" "0 < E"
  shows "decayed_lr base_lr e s L E = base_lr * (1 - completion_f e s L E) ^ 2
   \<and> completion_f e s L E = (real e + real s / real L) / real_of_int E
   \<and> (int e < E \<and> s < L \<longrightarrow> 0 \<le> completion_f e s L E \<and> completion_f e s L E < 1)
   \<and> (0 \<le> base_lr \<and> completion_f e s L E \<le> completion_f e' s' L E \<and> completion_f e' s' L E \<le> 1
        \<longrightarrow> decayed_lr base_lr e' s' L E \<le> decayed_lr base_lr e s L E)
   \<and> decayed_lr base_lr (nat E) 0 L E = 0
   \<and> (\<not> cfg_hard_pivot cfg \<and> ti_live (optimizer st) \<and> len_train_dataloader env = L
         \<and> cfg_textual_inversion_lr cfg = base_lr
        \<longrightarrow> (\<exists>opt'. pivot_or_decay cfg env E e s st = Inr (st\<lparr>optimizer := opt'\<rparr>)
               \<and> query_ti_lr opt' = decayed_lr base_lr e s L E))"
proof -
  have a: "decayed_lr base_lr e s L E = base_lr * (1 - completion_f e s L E) ^ 2"
    by (simp add: decayed_lr_def)
  have b: "completion_f e s L E = (real e + real s / real L) / real_of_int E"
    by (simp add: completion_f_def finegrained_epoch_def)
  have c: "0 \<le> completion_f e s L E \<and> completion_f e s L E < 1" if "int e < E" "s < L"
  proof -
    have "real s / real L < 1" using that assms by simp
    moreover have "real e + 1 \<le> real_of_int E" using that by linarith
    ultimately have "real e + real s / real L < real_of_int E" by linarith
    then show ?thesis using assms by (simp add: b)
  qed
  have d: "decayed_lr base_lr e' s' L E \<le> decayed_lr base_lr e s L E"
    if "0 \<le> base_lr" "completion_f e s L E \<le> completion_f e' s' L E" "completion_f e' s' L E \<le> 1"
  proof -
    have "(1 - completion_f e' s' L E) ^ 2 \<le> (1 - completion_f e s L E) ^ 2"
      using that by (intro power_mono) auto
    then show ?thesis using that(1) by (simp add: decayed_lr_def mult_left_mono)
  qed
  have e: "decayed_lr base_lr (nat E) 0 L E = 0"
    using assms by (simp add: decayed_lr_def completion_f_def finegrained_epoch_def)
  have f: "\<exists>opt'. pivot_or_decay cfg env E e s st = Inr (st\<lparr>optimizer := opt'\<rparr>)
               \<and> query_ti_lr opt' = decayed_lr base_lr e s L E"
    if "\<not> cfg_hard_pivot cfg" "ti_live (optimizer st)" "len_train_dataloader env = L"
      "cfg_textual_inversion_lr cfg = base_lr"
    using decay_soft[OF that(1,2), of env E e s] that(3,4) assms by auto
  show ?thesis using a b c d e f by blast
qed

theorem ti_lr_quadratic_decay_witness:
  "(0::nat) < 2 \<and> (0::int) < 2
   \<and> 0 \<le> completion_f 1 1 2 2 \<and> completion_f 1 1 2 2 < 1
   \<and> decayed_lr (1 / 1000) 1 1 2 2 \<le> decayed_lr (1 / 1000) 0 1 2 2
   \<and> decayed_lr (1 / 1000) 2 0 2 2 = 0"
proof -
  have h1: "(0::nat) < 2" and h2: "(0::int) < 2" by simp_all
  have f0: "completion_f 0 1 2 2 = 1 / 4" and f1: "completion_f 1 1 2 2 = 3 / 4"
    by (simp_all add: completion_f_def finegrained_epoch_def)
  note t = ti_lr_quadratic_decay [OF h1 h2, of "1 / 1000" 0 1 1 1 "prodigy_cfg 20 500 False"
      live_state "loader_env 2"]
  from t have zero: "decayed_lr (1 / 1000) (nat 2) 0 2 2 = 0" by blast
  from t have mono: "0 \<le> (1 / 1000 :: real) \<and> completion_f 0 1 2 2 \<le> completion_f 1 1 2 2
      \<and> completion_f 1 1 2 2 \<le> 1
      \<longrightarrow> decayed_lr (1 / 1000) 1 1 2 2 \<le> decayed_lr (1 / 1000) 0 1 2 2" by blast
  have le: "decayed_lr (1 / 1000) 1 1 2 2 \<le> decayed_lr (1 / 1000) 0 1 2 2"
    using mono f0 f1 by simp
  show ?thesis using zero le f1 by simp
qed

subsection \<open>The rate query on a missing optimizer\<close>

text \<open>
  Claim C7 says that \<open>get_avg_lr\<close> returns 0 and never raises when the handle is
  \<open>None\<close>. The \<open>try\<close> block raises on \<open>None\<close>, and so does the handler, which reads
  \<open>optimizer.param_groups\<close> again: the call raises \<open>AttributeError\<close>. A run with the
  optimizer \<open>adamw\<close>, whose adapter optimizer is \<open>None\<close>, ends with that exception in
  its first step.
\<close>

theorem get_avg_lr_none_raises:
  "get_avg_lr None = Inl AttributeError
   \<and> train ((prodigy_cfg 1 500 False)\<lparr>cfg_optimizer_name := ''adamw''\<rparr>) (loader_env 1) = Inl AttributeError"
proof -
  let ?cfg = "(prodigy_cfg 1 500 False)\<lparr>cfg_optimizer_name := ''adamw''\<rparr>"
  let ?env = "loader_env 1"
  have a: "get_avg_lr None = Inl AttributeError"
    by (simp add: get_avg_lr_def get_avg_lr_try_def first_group_lr_def)
  obtain s0 where s0: "train_setup ?cfg ?env = Inr (s0, 1)" and p: "optimizer_prod s0 = None"
    and o: "ti_live (optimizer s0)"
    by (simp add: train_setup_def prodigy_cfg_def loader_env_def py_ceil_div_def make_optimizers_def
        get_scheduler_def ti_live_new ti_live_lambda)
  have ok: "step_ok ?cfg ?env" by (simp add: step_ok_def prodigy_cfg_def loader_env_def)
  have soft: "\<not> cfg_hard_pivot ?cfg" by (simp add: prodigy_cfg_def)
  have L: "0 < len_train_dataloader ?env" by simp
  from decay_soft[OF soft o L, of 1 0 0] obtain opt' where
    s1: "pivot_or_decay ?cfg ?env 1 0 0 s0 = Inr (s0\<lparr>optimizer := opt'\<rparr>)" by auto
  define s1' where "s1' = set_target_size ?cfg (s0\<lparr>optimizer := opt'\<rparr>)"
  have p1: "optimizer_prod s1' = None" using p by (simp add: s1'_def set_target_size_def)
  obtain l where s2: "record_loss ?cfg ?env 0 0 s1' = Inr (s1'\<lparr>losses := losses s1' @ [l]\<rparr>)"
    using record_loss_ok[OF ok, of 0 0 s1'] by auto
  obtain s3 where s3: "accumulation_boundary ?cfg ?env 0 (s1'\<lparr>losses := losses s1' @ [l]\<rparr>) = Inr s3"
    and p3: "optimizer_prod s3 = None"
    using p1 by (simp add: accumulation_boundary_def prodigy_cfg_def loader_env_def)
  have s4: "track_lrs s3 = Inl AttributeError" by (simp add: track_lrs_def p3 a)
  have "train_step ?cfg ?env 1 0 0 s0 = Inl AttributeError"
    using s1 s2 s3 s4 unfolding s1'_def by (simp add: train_step_def bind_err_def)
  then have "run_epochs ?cfg ?env 1 [0 ..< nat 1] s0 = Inl AttributeError" by simp
  then show ?thesis using a s0 by (simp add: train_def)
qed

end
